theory Spec2Isabelle
  imports Main "HOL-Library.Word"
begin

section \<open>Values of both packages\<close>

text \<open>
  A Go \<^verbatim>\<open>[]byte\<close> is a list of bytes and an Isabelle \<^typ>\<open>char\<close> is a byte, so byte
  slices and Go strings are both \<^typ>\<open>string\<close>. \<^verbatim>\<open>digest.Digest\<close> is a Go string type:
  \<^verbatim>\<open>dgst.String()\<close> and \<^verbatim>\<open>[]byte(digest)\<close> are the characters of the digest.
\<close>

type_synonym bytes = string
type_synonym Digest = string

definition Digest_String :: "Digest \<Rightarrow> string" where
  "Digest_String d = d"

text \<open>
  The values of Go's \<^verbatim>\<open>error\<close> interface that the code builds or switches on:
  \<^verbatim>\<open>storagedriver.PathNotFoundError\<close> (the only type the type switches name),
  \<^verbatim>\<open>distribution.ErrLayerTarSumVersionUnsupported\<close>, the struct
  \<^verbatim>\<open>distribution.ErrLayerInvalidDigest{Digest, Reason}\<close> and \<^verbatim>\<open>fmt.Errorf(msg)\<close>, which
  also stands for every opaque error a collaborator may return. A function returning
  \<^verbatim>\<open>error\<close> returns an optional error (\<^term>\<open>None\<close> is \<^verbatim>\<open>nil\<close>); one returning
  \<^verbatim>\<open>(T, error)\<close> returns a sum, the error on the left.
\<close>

datatype error =
    PathNotFoundError string
  | ErrLayerTarSumVersionUnsupported
  | ErrLayerInvalidDigest Digest error
  | Errorf string

text \<open>The constants of \<^verbatim>\<open>tarsum.Version\<close>.\<close>

datatype Version = Version0 | Version1 | VersionDev

text \<open>
  \<^verbatim>\<open>time.Time\<close> is Go's; \<^verbatim>\<open>Unix()\<close> is its number of seconds since the epoch, an
  \<^verbatim>\<open>int64\<close>, without the part below a second.
\<close>

record Time =
  sec :: "64 word"
  nsec :: "32 word"

definition Unix :: "Time \<Rightarrow> 64 word" where
  "Unix t = sec t"

text \<open>
  What a stat returns, which the code discards, and the handle \<^verbatim>\<open>Fetch\<close> returns, which
  \<^verbatim>\<open>Finish\<close> passes on.
\<close>

record FileInfo =
  Path :: string
  Size :: int
  IsDir :: bool

record Layer =
  LayerDigest :: Digest
  LayerLength :: int

section \<open>The storage driver and the journal of calls\<close>

text \<open>
  \<^verbatim>\<open>storagedriver.StorageDriver\<close> is an interface; the code calls four of its methods.
  A driver is a record of these four over a backend state \<^typ>\<open>'b\<close> of its own, each
  returning its result and the backend it leaves.
\<close>

record 'b StorageDriver =
  Stat :: "'b \<Rightarrow> string \<Rightarrow> (error + FileInfo) \<times> 'b"
  PutContent :: "'b \<Rightarrow> string \<Rightarrow> bytes \<Rightarrow> error option \<times> 'b"
  Move :: "'b \<Rightarrow> string \<Rightarrow> string \<Rightarrow> error option \<times> 'b"
  Delete :: "'b \<Rightarrow> string \<Rightarrow> error option \<times> 'b"

text \<open>
  Every call that leaves the layer writer is entered in a journal, oldest first, so that
  "no move is performed" or "nothing is read" is a statement about the journal.
\<close>

datatype call =
    CallStat string
  | CallPutContent string bytes
  | CallMove string string
  | CallDelete string
  | CallNewFileReader string
  | CallVerifierWrite bytes
  | CallClose
  | CallFetch Digest

record 'b world =
  backend :: 'b
  journal :: "call list"

definition callStat :: "'b StorageDriver \<Rightarrow> string \<Rightarrow> 'b world \<Rightarrow> (error + FileInfo) \<times> 'b world" where
  "callStat d p w =
     (case Stat d (backend w) p of
        (r, b) \<Rightarrow> (r, \<lparr>backend = b, journal = journal w @ [CallStat p]\<rparr>))"

definition callPutContent :: "'b StorageDriver \<Rightarrow> string \<Rightarrow> bytes \<Rightarrow> 'b world \<Rightarrow> error option \<times> 'b world" where
  "callPutContent d p content w =
     (case PutContent d (backend w) p content of
        (r, b) \<Rightarrow> (r, \<lparr>backend = b, journal = journal w @ [CallPutContent p content]\<rparr>))"

definition callMove :: "'b StorageDriver \<Rightarrow> string \<Rightarrow> string \<Rightarrow> 'b world \<Rightarrow> error option \<times> 'b world" where
  "callMove d src dst w =
     (case Move d (backend w) src dst of
        (r, b) \<Rightarrow> (r, \<lparr>backend = b, journal = journal w @ [CallMove src dst]\<rparr>))"

definition callDelete :: "'b StorageDriver \<Rightarrow> string \<Rightarrow> 'b world \<Rightarrow> error option \<times> 'b world" where
  "callDelete d p w =
     (case Delete d (backend w) p of
        (r, b) \<Rightarrow> (r, \<lparr>backend = b, journal = journal w @ [CallDelete p]\<rparr>))"

section \<open>The layer writer and what it holds\<close>

text \<open>
  The three path specifications handed to the path mapper \<^verbatim>\<open>pm.path\<close>, with the fields
  the code fills in.
\<close>

datatype pathSpec =
    blobDataPathSpec Digest
  | layerLinkPathSpec string Digest
  | uploadDataPathSpec string string

record 'b registry =
  driver :: "'b StorageDriver"
  pm :: "pathSpec \<Rightarrow> error + string"

record 'b repository =
  registry :: "'b registry"
  Name :: string

record 'b layerStore =
  repository :: "'b repository"

record 'b fileWriter =
  driver :: "'b StorageDriver"
  path :: string

record 'b layerWriter =
  layerStore :: "'b layerStore"
  uuid :: string
  startedAt :: Time
  fileWriter :: "'b fileWriter"

definition UUID :: "'b layerWriter \<Rightarrow> string" where
  "UUID lw = uuid lw"

definition StartedAt :: "'b layerWriter \<Rightarrow> Time" where
  "StartedAt lw = startedAt lw"

text \<open>
  A file reader, once opened, delivers its content in chunks and then ends, with
  \<^verbatim>\<open>io.EOF\<close> (\<^term>\<open>None\<close>) or with a read error.
\<close>

record fileReader =
  chunks :: "bytes list"
  failure :: "error option"

text \<open>
  The collaborators of the layer writer whose code is in other files or other
  repositories: \<^verbatim>\<open>tarsum.GetVersionFromTarsum\<close>, \<^verbatim>\<open>newFileReader\<close>, the tarsum of a whole
  archive (what \<^verbatim>\<open>digest.FromTarArchive\<close> computes from the bytes it has read), the check
  a digest verifier makes of the bytes written to it, the constant
  \<^verbatim>\<open>digest.DigestTarSumV1EmptyTar\<close>, \<^verbatim>\<open>path.Dir\<close> and \<^verbatim>\<open>layerStore.Fetch\<close>. They are
  parameters: every theorem below holds for all of them.
\<close>

record 'b externals =
  GetVersionFromTarsum :: "string \<Rightarrow> error + Version"
  newFileReader :: "'b StorageDriver \<Rightarrow> string \<Rightarrow> 'b \<Rightarrow> (error + fileReader) \<times> 'b"
  tarSum :: "bytes \<Rightarrow> error + Digest"
  sumsTo :: "Digest \<Rightarrow> bytes \<Rightarrow> bool"
  DigestTarSumV1EmptyTar :: Digest
  Dir :: "string \<Rightarrow> string"
  Fetch :: "'b layerStore \<Rightarrow> Digest \<Rightarrow> 'b \<Rightarrow> (error + Layer) \<times> 'b"

definition callNewFileReader ::
  "'b externals \<Rightarrow> 'b StorageDriver \<Rightarrow> string \<Rightarrow> 'b world \<Rightarrow> (error + fileReader) \<times> 'b world" where
  "callNewFileReader ext d p w =
     (case newFileReader ext d p (backend w) of
        (r, b) \<Rightarrow> (r, \<lparr>backend = b, journal = journal w @ [CallNewFileReader p]\<rparr>))"

definition callFetch ::
  "'b externals \<Rightarrow> 'b layerStore \<Rightarrow> Digest \<Rightarrow> 'b world \<Rightarrow> (error + Layer) \<times> 'b world" where
  "callFetch ext ls dgst w =
     (case Fetch ext ls dgst (backend w) of
        (r, b) \<Rightarrow> (r, \<lparr>backend = b, journal = journal w @ [CallFetch dgst]\<rparr>))"

text \<open>\<^verbatim>\<open>lw.Close()\<close> is the embedded file writer's method; \<^verbatim>\<open>Cancel\<close> drops its result.\<close>

definition callClose :: "'b world \<Rightarrow> 'b world" where
  "callClose w = w\<lparr>journal := journal w @ [CallClose]\<rparr>"

subsection \<open>The digest verifier, the tee and the archive digest\<close>

record DigestVerifier =
  expected :: Digest
  written :: bytes

text \<open>
  Modelled from the spec: \<^verbatim>\<open>digest.NewDigestVerifier\<close>, the verifier's \<^verbatim>\<open>Write\<close> and
  \<^verbatim>\<open>Verified\<close> are in the digest package, which is not among the sources. The spec's
  verifier is bound to one expected digest at creation, accepts bytes incrementally and
  answers one query, whether the bytes it was fed hash to the expected digest.
\<close>

definition NewDigestVerifier :: "Digest \<Rightarrow> DigestVerifier" where
  "NewDigestVerifier dgst = \<lparr>expected = dgst, written = []\<rparr>"

definition VerifierWrite :: "DigestVerifier \<Rightarrow> bytes \<Rightarrow> DigestVerifier" where
  "VerifierWrite v p = v\<lparr>written := written v @ p\<rparr>"

definition Verified :: "'b externals \<Rightarrow> DigestVerifier \<Rightarrow> bool" where
  "Verified ext v = sumsTo ext (expected v) (written v)"

text \<open>
  Modelled from the spec: \<^verbatim>\<open>digest.FromTarArchive\<close> is in the digest package, which is not
  among the sources, and \<^verbatim>\<open>io.TeeReader\<close> is Go's. The spec has one streaming pass over
  the reader with two accumulators: every chunk read is written to the verifier, the
  archive digest is computed from the same chunks, and the pass ends where the reader
  ends. \<^term>\<open>teeCopy\<close> is that pass; it returns the bytes read, the verifier and the
  world, whose journal has one \<^term>\<open>CallVerifierWrite\<close> for each chunk.
\<close>

fun teeCopy :: "bytes list \<Rightarrow> bytes \<Rightarrow> DigestVerifier \<Rightarrow> 'b world \<Rightarrow> bytes \<times> DigestVerifier \<times> 'b world" where
  "teeCopy [] acc v w = (acc, v, w)"
| "teeCopy (p # ps) acc v w =
     teeCopy ps (acc @ p) (VerifierWrite v p) (w\<lparr>journal := journal w @ [CallVerifierWrite p]\<rparr>)"

definition FromTarArchive ::
  "'b externals \<Rightarrow> fileReader \<Rightarrow> DigestVerifier \<Rightarrow> 'b world \<Rightarrow> (error + Digest) \<times> DigestVerifier \<times> 'b world" where
  "FromTarArchive ext fr v w =
     (case teeCopy (chunks fr) [] v w of
        (content, v', w') \<Rightarrow>
          (case failure fr of
             Some e \<Rightarrow> (Inl e, v', w')
           | None \<Rightarrow> (tarSum ext content, v', w')))"

subsection \<open>The phases of Finish\<close>

text \<open>
  \<^verbatim>\<open>validateLayer\<close>: the version of the claimed digest is checked first; only
  \<^term>\<open>Version1\<close> goes on to open the reader over \<^verbatim>\<open>lw.path\<close>, tee it through the verifier
  and compute the canonical digest.
\<close>

definition validateLayer ::
  "'b externals \<Rightarrow> 'b layerWriter \<Rightarrow> Digest \<Rightarrow> 'b world \<Rightarrow> (error + Digest) \<times> 'b world" where
  "validateLayer ext lw dgst w =
     (case GetVersionFromTarsum ext (Digest_String dgst) of
        Inl err \<Rightarrow> (Inl err, w)
      | Inr version \<Rightarrow>
          (case version of
             Version1 \<Rightarrow>
               (let digestVerifier = NewDigestVerifier dgst in
                case callNewFileReader ext (fileWriter.driver (fileWriter lw)) (path (fileWriter lw)) w of
                  (Inl err, w1) \<Rightarrow> (Inl err, w1)
                | (Inr fr, w1) \<Rightarrow>
                    (case FromTarArchive ext fr digestVerifier w1 of
                       (Inl err, v, w2) \<Rightarrow> (Inl err, w2)
                     | (Inr canonical, v, w2) \<Rightarrow>
                         if \<not> Verified ext v
                         then (Inl (ErrLayerInvalidDigest dgst (Errorf ''content does not match digest'')), w2)
                         else (Inr canonical, w2)))
           | _ \<Rightarrow> (Inl (ErrLayerInvalidDigest dgst ErrLayerTarSumVersionUnsupported), w)))"

text \<open>
  \<^verbatim>\<open>moveLayer\<close>: two \<^verbatim>\<open>Stat\<close> calls on \<^verbatim>\<open>lw.driver\<close>, each followed by a type switch on
  the error, then the move. The warning logged before the move is not modelled.
\<close>

definition moveLayer :: "'b externals \<Rightarrow> 'b layerWriter \<Rightarrow> Digest \<Rightarrow> 'b world \<Rightarrow> error option \<times> 'b world" where
  "moveLayer ext lw dgst w =
     (case pm (registry (repository (layerStore lw))) (blobDataPathSpec dgst) of
        Inl err \<Rightarrow> (Some err, w)
      | Inr blobPath \<Rightarrow>
          (case callStat (fileWriter.driver (fileWriter lw)) blobPath w of
             (Inr fi, w1) \<Rightarrow> (None, w1)
           | (Inl (PathNotFoundError p), w1) \<Rightarrow>
               (case callStat (fileWriter.driver (fileWriter lw)) (path (fileWriter lw)) w1 of
                  (Inr fi, w2) \<Rightarrow>
                    callMove (fileWriter.driver (fileWriter lw)) (path (fileWriter lw)) blobPath w2
                | (Inl (PathNotFoundError q), w2) \<Rightarrow>
                    if dgst = DigestTarSumV1EmptyTar ext
                    then callPutContent (fileWriter.driver (fileWriter lw)) blobPath [] w2
                    else callMove (fileWriter.driver (fileWriter lw)) (path (fileWriter lw)) blobPath w2
                | (Inl err, w2) \<Rightarrow> (Some err, w2))
           | (Inl err, w1) \<Rightarrow> (Some err, w1)))"

text \<open>\<^verbatim>\<open>linkLayer\<close> writes through the registry's driver, not the file writer's.\<close>

definition linkLayer :: "'b layerWriter \<Rightarrow> Digest \<Rightarrow> 'b world \<Rightarrow> error option \<times> 'b world" where
  "linkLayer lw digest w =
     (case pm (registry (repository (layerStore lw)))
             (layerLinkPathSpec (repository.Name (repository (layerStore lw))) digest) of
        Inl err \<Rightarrow> (Some err, w)
      | Inr layerLinkPath \<Rightarrow>
          callPutContent (registry.driver (registry (repository (layerStore lw)))) layerLinkPath digest w)"

text \<open>
  \<^verbatim>\<open>removeResources\<close> deletes the directory of the upload's data path; a
  \<^term>\<open>PathNotFoundError\<close> from the delete is not an error of the phase. The error logged
  on the other branch is not modelled.
\<close>

definition removeResources :: "'b externals \<Rightarrow> 'b layerWriter \<Rightarrow> 'b world \<Rightarrow> error option \<times> 'b world" where
  "removeResources ext lw w =
     (case pm (registry (repository (layerStore lw)))
             (uploadDataPathSpec (repository.Name (repository (layerStore lw))) (uuid lw)) of
        Inl err \<Rightarrow> (Some err, w)
      | Inr dataPath \<Rightarrow>
          (let dirPath = Dir ext dataPath in
           case callDelete (fileWriter.driver (fileWriter lw)) dirPath w of
             (None, w1) \<Rightarrow> (None, w1)
           | (Some (PathNotFoundError p), w1) \<Rightarrow> (None, w1)
           | (Some err, w1) \<Rightarrow> (Some err, w1)))"

subsection \<open>Finish and Cancel\<close>

text \<open>The debug line both methods log first is not modelled.\<close>

definition Finish :: "'b externals \<Rightarrow> 'b layerWriter \<Rightarrow> Digest \<Rightarrow> 'b world \<Rightarrow> (error + Layer) \<times> 'b world" where
  "Finish ext lw digest w =
     (case validateLayer ext lw digest w of
        (Inl err, w1) \<Rightarrow> (Inl err, w1)
      | (Inr canonical, w1) \<Rightarrow>
          (case moveLayer ext lw canonical w1 of
             (Some err, w2) \<Rightarrow> (Inl err, w2)
           | (None, w2) \<Rightarrow>
               (case linkLayer lw canonical w2 of
                  (Some err, w3) \<Rightarrow> (Inl err, w3)
                | (None, w3) \<Rightarrow>
                    (case removeResources ext lw w3 of
                       (Some err, w4) \<Rightarrow> (Inl err, w4)
                     | (None, w4) \<Rightarrow> callFetch ext (layerStore lw) canonical w4))))"

definition Cancel :: "'b externals \<Rightarrow> 'b layerWriter \<Rightarrow> 'b world \<Rightarrow> error option \<times> 'b world" where
  "Cancel ext lw w =
     (case removeResources ext lw w of
        (Some err, w1) \<Rightarrow> (Some err, w1)
      | (None, w1) \<Rightarrow> (None, callClose w1))"

section \<open>The notification sink\<close>

text \<open>The event of the notifications package, with the fields \<^verbatim>\<open>Write\<close> reads.\<close>

record Descriptor =
  MediaType :: string
  Length :: "64 word"
  Digest :: Digest

record EventTarget =
  Descriptor :: Descriptor
  Repository :: string
  URL :: string

record RequestRecord =
  ID :: string
  Addr :: string
  Host :: string
  Method :: string
  UserAgent :: string

record ActorRecord =
  Name :: string

record SourceRecord =
  Addr :: string
  InstanceID :: string

record Event =
  ID :: string
  Timestamp :: Time
  Action :: string
  Target :: EventTarget
  Request :: RequestRecord
  Actor :: ActorRecord
  Source :: SourceRecord

text \<open>
  The messages of the generated client package \<^verbatim>\<open>grpcClient\<close>. The descriptor field of
  \<^verbatim>\<open>TargetMessage\<close> is \<^verbatim>\<open>Descriptor_\<close> in Go; a name cannot end in an underscore here.
\<close>

record DescriptorMessage =
  MediaType :: string
  Length :: "64 word"
  Digest :: string

record TargetMessage =
  Repository :: string
  URL :: string
  Descriptor :: DescriptorMessage

record RequestRecordMessage =
  ID :: string
  Addr :: string
  Host :: string
  Method :: string
  UserAgent :: string

record ActorRecordMessage =
  Name :: string

record SourceRecordMessage =
  Addr :: string
  InstanceID :: string

record grpcClient_Event =
  ID :: string
  Timestamp :: "64 word"
  Action :: string
  Target :: TargetMessage
  Request :: RequestRecordMessage
  Actor :: ActorRecordMessage
  Source :: SourceRecordMessage

record Events =
  Events :: "grpcClient_Event list"

text \<open>
  \<^verbatim>\<open>grpcClient.NewEventReceiverClient(conn)\<close> wraps the connection \<^typ>\<open>'k\<close> it is given.
\<close>

datatype 'k EventReceiverClient = NewEventReceiverClient 'k

record 'k grpcSink =
  url :: string
  mu :: bool
  closed :: bool
  client :: "'k EventReceiverClient"
  conn :: 'k

text \<open>
  The remote calls of the sink, \<^verbatim>\<open>grpc.Dial\<close>, the client's \<^verbatim>\<open>Publish\<close> and the
  connection's \<^verbatim>\<open>Close\<close>, are parameters over a state \<^typ>\<open>'n\<close> of the network and the
  receiver. Each call made is entered in the list \<open>sent\<close>, oldest first.
\<close>

record ('k, 'n) grpcAPI =
  Dial :: "string \<Rightarrow> 'n \<Rightarrow> (error + 'k) \<times> 'n"
  Publish :: "'k EventReceiverClient \<Rightarrow> Events \<Rightarrow> 'n \<Rightarrow> error option \<times> 'n"
  ConnClose :: "'k \<Rightarrow> 'n \<Rightarrow> error option \<times> 'n"

datatype 'k rpc =
    RpcDial string
  | RpcPublish "'k EventReceiverClient" Events
  | RpcConnClose 'k

record ('k, 'n) net =
  remote :: 'n
  sent :: "'k rpc list"

definition callDial :: "('k, 'n) grpcAPI \<Rightarrow> string \<Rightarrow> ('k, 'n) net \<Rightarrow> (error + 'k) \<times> ('k, 'n) net" where
  "callDial api u w =
     (case Dial api u (remote w) of
        (r, n) \<Rightarrow> (r, \<lparr>remote = n, sent = sent w @ [RpcDial u]\<rparr>))"

definition callPublish ::
  "('k, 'n) grpcAPI \<Rightarrow> 'k EventReceiverClient \<Rightarrow> Events \<Rightarrow> ('k, 'n) net \<Rightarrow> error option \<times> ('k, 'n) net" where
  "callPublish api c evs w =
     (case Publish api c evs (remote w) of
        (r, n) \<Rightarrow> (r, \<lparr>remote = n, sent = sent w @ [RpcPublish c evs]\<rparr>))"

definition callConnClose :: "('k, 'n) grpcAPI \<Rightarrow> 'k \<Rightarrow> ('k, 'n) net \<Rightarrow> error option \<times> ('k, 'n) net" where
  "callConnClose api k w =
     (case ConnClose api k (remote w) of
        (r, n) \<Rightarrow> (r, \<lparr>remote = n, sent = sent w @ [RpcConnClose k]\<rparr>))"

text \<open>\<^verbatim>\<open>newGrpcSink\<close> returns a pointer; \<^term>\<open>None\<close> is the \<^verbatim>\<open>nil\<close> it returns when the dial fails.\<close>

definition newGrpcSink :: "('k, 'n) grpcAPI \<Rightarrow> string \<Rightarrow> ('k, 'n) net \<Rightarrow> 'k grpcSink option \<times> ('k, 'n) net" where
  "newGrpcSink api u w =
     (case callDial api u w of
        (Inl err, w1) \<Rightarrow> (None, w1)
      | (Inr cn, w1) \<Rightarrow>
          (Some \<lparr>url = u, mu = False, closed = False, client = NewEventReceiverClient cn, conn = cn\<rparr>, w1))"

text \<open>The composite literal that \<^verbatim>\<open>Write\<close> appends for one event.\<close>

definition grpcEvent :: "Event \<Rightarrow> grpcClient_Event" where
  "grpcEvent ev =
     \<lparr>grpcClient_Event.ID = Event.ID ev,
      grpcClient_Event.Timestamp = Unix (Event.Timestamp ev),
      grpcClient_Event.Action = Event.Action ev,
      grpcClient_Event.Target =
        \<lparr>TargetMessage.Repository = EventTarget.Repository (Event.Target ev),
         TargetMessage.URL = EventTarget.URL (Event.Target ev),
         TargetMessage.Descriptor =
           \<lparr>DescriptorMessage.MediaType = Descriptor.MediaType (EventTarget.Descriptor (Event.Target ev)),
            DescriptorMessage.Length = Descriptor.Length (EventTarget.Descriptor (Event.Target ev)),
            DescriptorMessage.Digest =
              Digest_String (Descriptor.Digest (EventTarget.Descriptor (Event.Target ev)))\<rparr>\<rparr>,
      grpcClient_Event.Request =
        \<lparr>RequestRecordMessage.ID = RequestRecord.ID (Event.Request ev),
         RequestRecordMessage.Addr = RequestRecord.Addr (Event.Request ev),
         RequestRecordMessage.Host = RequestRecord.Host (Event.Request ev),
         RequestRecordMessage.Method = RequestRecord.Method (Event.Request ev),
         RequestRecordMessage.UserAgent = RequestRecord.UserAgent (Event.Request ev)\<rparr>,
      grpcClient_Event.Actor = \<lparr>ActorRecordMessage.Name = ActorRecord.Name (Event.Actor ev)\<rparr>,
      grpcClient_Event.Source =
        \<lparr>SourceRecordMessage.Addr = SourceRecord.Addr (Event.Source ev),
         SourceRecordMessage.InstanceID = SourceRecord.InstanceID (Event.Source ev)\<rparr>\<rparr>"

text \<open>The loop of \<^verbatim>\<open>Write\<close> over its arguments, appending to \<open>events\<close>.\<close>

fun appendEvents :: "Event list \<Rightarrow> grpcClient_Event list \<Rightarrow> grpcClient_Event list" where
  "appendEvents [] events = events"
| "appendEvents (ev # e) events = appendEvents e (events @ [grpcEvent ev])"

definition Write :: "('k, 'n) grpcAPI \<Rightarrow> 'k grpcSink \<Rightarrow> Event list \<Rightarrow> ('k, 'n) net \<Rightarrow> error option \<times> ('k, 'n) net" where
  "Write api g e w =
     (let events = appendEvents e [] in
      callPublish api (client g) \<lparr>Events = events\<rparr> w)"

definition Close :: "('k, 'n) grpcAPI \<Rightarrow> 'k grpcSink \<Rightarrow> ('k, 'n) net \<Rightarrow> error option \<times> ('k, 'n) net" where
  "Close api g w = callConnClose api (conn g) w"

section \<open>A reference backend and a reference receiver\<close>

text \<open>
  Modelled from the spec: the storage drivers are not among the sources. This is the
  driver contract of the spec (existence check, whole-value write, atomic move, recursive
  delete, not-found apart from every other error) over a list of paths and contents. It
  serves the concrete instances below; the theorems hold for every driver.
\<close>

type_synonym inmemory = "(string \<times> bytes) list"

fun hasPrefix :: "string \<Rightarrow> string \<Rightarrow> bool" where
  "hasPrefix s [] = True"
| "hasPrefix [] (c # cs) = False"
| "hasPrefix (x # xs) (c # cs) = (x = c \<and> hasPrefix xs cs)"

definition within :: "string \<Rightarrow> string \<Rightarrow> bool" where
  "within dir k = (k = dir \<or> hasPrefix k (dir @ ''/''))"

definition inmemoryStat :: "inmemory \<Rightarrow> string \<Rightarrow> (error + FileInfo) \<times> inmemory" where
  "inmemoryStat b p =
     (case map_of b p of
        Some content \<Rightarrow> (Inr \<lparr>Path = p, Size = int (length content), IsDir = False\<rparr>, b)
      | None \<Rightarrow>
          if list_ex (\<lambda>(k, content). within p k) b
          then (Inr \<lparr>Path = p, Size = 0, IsDir = True\<rparr>, b)
          else (Inl (PathNotFoundError p), b))"

definition inmemoryPutContent :: "inmemory \<Rightarrow> string \<Rightarrow> bytes \<Rightarrow> error option \<times> inmemory" where
  "inmemoryPutContent b p content = (None, (p, content) # filter (\<lambda>(k, c). k \<noteq> p) b)"

definition inmemoryMove :: "inmemory \<Rightarrow> string \<Rightarrow> string \<Rightarrow> error option \<times> inmemory" where
  "inmemoryMove b src dst =
     (case map_of b src of
        None \<Rightarrow> (Some (PathNotFoundError src), b)
      | Some content \<Rightarrow> (None, (dst, content) # filter (\<lambda>(k, c). k \<noteq> src \<and> k \<noteq> dst) b))"

definition inmemoryDelete :: "inmemory \<Rightarrow> string \<Rightarrow> error option \<times> inmemory" where
  "inmemoryDelete b p =
     (if list_ex (\<lambda>(k, content). within p k) b
      then (None, filter (\<lambda>(k, content). \<not> within p k) b)
      else (Some (PathNotFoundError p), b))"

definition inmemoryDriver :: "inmemory StorageDriver" where
  "inmemoryDriver =
     \<lparr>Stat = inmemoryStat, PutContent = inmemoryPutContent, Move = inmemoryMove, Delete = inmemoryDelete\<rparr>"

text \<open>
  The same driver with one operation, named by \<open>op\<close>, that the backend refuses every
  time with an error other than not-found.
\<close>

definition faultyDriver :: "string \<Rightarrow> inmemory StorageDriver" where
  "faultyDriver op =
     \<lparr>Stat = (if op = ''Stat'' then (\<lambda>b p. (Inl (Errorf ''backend unavailable''), b)) else inmemoryStat),
      PutContent =
        (if op = ''PutContent'' then (\<lambda>b p content. (Some (Errorf ''backend unavailable''), b))
         else inmemoryPutContent),
      Move =
        (if op = ''Move'' then (\<lambda>b src dst. (Some (Errorf ''backend unavailable''), b))
         else inmemoryMove),
      Delete =
        (if op = ''Delete'' then (\<lambda>b p. (Some (Errorf ''backend unavailable''), b))
         else inmemoryDelete)\<rparr>"

text \<open>
  Modelled from the spec: the path mapper is not among the sources. Blob paths depend on
  the digest only; link and scratch paths are under the repository, the scratch path under
  the session as well.
\<close>

definition paths :: "pathSpec \<Rightarrow> error + string" where
  "paths spec =
     (case spec of
        blobDataPathSpec d \<Rightarrow> Inr (''/blobs/'' @ d)
      | layerLinkPathSpec n d \<Rightarrow> Inr (''/repo/'' @ n @ ''/_layers/'' @ d)
      | uploadDataPathSpec n u \<Rightarrow> Inr (''/repo/'' @ n @ ''/_uploads/'' @ u @ ''/data''))"

text \<open>
  Stand-ins for the remaining collaborators. The version of a tarsum is read from the
  text before the first \<open>+\<close>. The reader delivers a file byte by byte and an absent file as
  an empty stream. The archive digest of a content is the version-1 tag followed by the
  content itself, so that different contents have different digests; a content starting
  with \<open>!\<close> is not an archive.
\<close>

definition tarsumVersion :: "string \<Rightarrow> error + Version" where
  "tarsumVersion s =
     (let tsv = takeWhile (\<lambda>c. c \<noteq> CHR ''+'') s in
      if tsv = ''tarsum'' then Inr Version0
      else if tsv = ''tarsum.v1'' then Inr Version1
      else if tsv = ''tarsum.dev'' then Inr VersionDev
      else Inl (Errorf ''tarsum: not a version''))"

definition dirOf :: "string \<Rightarrow> string" where
  "dirOf p = rev (tl (dropWhile (\<lambda>c. c \<noteq> CHR ''/'') (rev p)))"

definition localFetch :: "inmemory layerStore \<Rightarrow> Digest \<Rightarrow> inmemory \<Rightarrow> (error + Layer) \<times> inmemory" where
  "localFetch ls d b =
     (case pm (registry (repository ls)) (blobDataPathSpec d) of
        Inl err \<Rightarrow> (Inl err, b)
      | Inr p \<Rightarrow>
          (case map_of b p of
             None \<Rightarrow> (Inl (PathNotFoundError p), b)
           | Some content \<Rightarrow> (Inr \<lparr>LayerDigest = d, LayerLength = int (length content)\<rparr>, b)))"

definition localExternals :: "inmemory externals" where
  "localExternals =
     \<lparr>GetVersionFromTarsum = tarsumVersion,
      newFileReader = (\<lambda>d p b.
        (Inr \<lparr>chunks = (case map_of b p of None \<Rightarrow> [] | Some content \<Rightarrow> map (\<lambda>x. [x]) content),
              failure = None\<rparr>, b)),
      tarSum = (\<lambda>content.
        if hasPrefix content ''!'' then Inl (Errorf ''archive/tar: invalid tar header'')
        else Inr (''tarsum.v1+sha256:'' @ content)),
      sumsTo = (\<lambda>d content. d = ''tarsum.v1+sha256:'' @ content),
      DigestTarSumV1EmptyTar = ''tarsum.v1+sha256:'',
      Dir = dirOf,
      Fetch = localFetch\<rparr>"

definition sessionOn :: "inmemory StorageDriver \<Rightarrow> inmemory layerWriter" where
  "sessionOn d =
     \<lparr>layerStore = \<lparr>repository = \<lparr>registry = \<lparr>registry.driver = d, pm = paths\<rparr>,
                                    repository.Name = ''lib''\<rparr>\<rparr>,
      uuid = ''abc123'',
      startedAt = \<lparr>sec = 1425000000, nsec = 0\<rparr>,
      fileWriter = \<lparr>fileWriter.driver = d, path = ''/repo/lib/_uploads/abc123/data''\<rparr>\<rparr>"

definition uploaded :: "bytes \<Rightarrow> inmemory world" where
  "uploaded content = \<lparr>backend = [(''/repo/lib/_uploads/abc123/data'', content)], journal = []\<rparr>"

text \<open>
  A receiver that keeps what is published to it, reached by a dial that fails on the
  empty address only.
\<close>

definition localAPI :: "(string, Events list) grpcAPI" where
  "localAPI =
     \<lparr>Dial = (\<lambda>u n. if u = [] then (Inl (Errorf ''grpc: no target''), n) else (Inr u, n)),
      Publish = (\<lambda>c evs n. (None, n @ [evs])),
      ConnClose = (\<lambda>k n. (None, n))\<rparr>"

text \<open>An event of a push and a sink connected to that receiver.\<close>

definition pushed :: "string \<Rightarrow> 64 word \<Rightarrow> Digest \<Rightarrow> Event" where
  "pushed i t d =
     \<lparr>Event.ID = i,
      Event.Timestamp = \<lparr>sec = t, nsec = 500\<rparr>,
      Event.Action = ''push'',
      Event.Target =
        \<lparr>EventTarget.Descriptor =
           \<lparr>Descriptor.MediaType = ''application/octet-stream'',
            Descriptor.Length = 2,
            Descriptor.Digest = d\<rparr>,
         EventTarget.Repository = ''lib'',
         EventTarget.URL = ''http://registry/v2/lib/blobs/'' @ d\<rparr>,
      Event.Request =
        \<lparr>RequestRecord.ID = ''req-'' @ i,
         RequestRecord.Addr = ''10.0.0.7:4711'',
         RequestRecord.Host = ''registry'',
         RequestRecord.Method = ''PUT'',
         RequestRecord.UserAgent = ''docker/1.5''\<rparr>,
      Event.Actor = \<lparr>ActorRecord.Name = ''alice''\<rparr>,
      Event.Source = \<lparr>SourceRecord.Addr = ''registry:5000'', SourceRecord.InstanceID = ''i-1''\<rparr>\<rparr>"

definition linked :: "string grpcSink" where
  "linked =
     \<lparr>url = ''receiver:9000'', mu = False, closed = False,
      client = NewEventReceiverClient ''receiver:9000'', conn = ''receiver:9000''\<rparr>"

section \<open>Facts about the phases\<close>

lemmas phase_defs =
  validateLayer_def moveLayer_def linkLayer_def removeResources_def callFetch_def callStat_def
  callMove_def callPutContent_def callDelete_def callNewFileReader_def callClose_def
  FromTarArchive_def Verified_def NewDigestVerifier_def VerifierWrite_def Digest_String_def

lemmas local_defs =
  localExternals_def sessionOn_def uploaded_def faultyDriver_def inmemoryDriver_def
  inmemoryStat_def inmemoryPutContent_def inmemoryMove_def inmemoryDelete_def paths_def
  tarsumVersion_def dirOf_def localFetch_def within_def

text \<open>The streaming pass writes every chunk to the verifier and reads to the end.\<close>

lemma teeCopy_eq:
  "teeCopy ps acc v w =
     (acc @ concat ps, v\<lparr>written := written v @ concat ps\<rparr>,
      w\<lparr>journal := journal w @ map CallVerifierWrite ps\<rparr>)"
  by (induction ps arbitrary: acc v w) (simp_all add: VerifierWrite_def)

lemma FromTarArchive_eq:
  "FromTarArchive ext fr v w =
     ((case failure fr of Some e \<Rightarrow> Inl e | None \<Rightarrow> tarSum ext (concat (chunks fr))),
      v\<lparr>written := written v @ concat (chunks fr)\<rparr>,
      w\<lparr>journal := journal w @ map CallVerifierWrite (chunks fr)\<rparr>)"
  by (simp add: FromTarArchive_def teeCopy_eq split: option.splits)

lemma validateLayer_unsupported:
  assumes "GetVersionFromTarsum ext (Digest_String dgst) = Inr version" and "version \<noteq> Version1"
  shows "validateLayer ext lw dgst w = (Inl (ErrLayerInvalidDigest dgst ErrLayerTarSumVersionUnsupported), w)"
  using assms by (cases version) (simp_all add: validateLayer_def)

lemma validateLayer_no_version:
  assumes "GetVersionFromTarsum ext (Digest_String dgst) = Inl err"
  shows "validateLayer ext lw dgst w = (Inl err, w)"
  using assms by (simp add: validateLayer_def)

lemma validateLayer_no_reader:
  assumes "GetVersionFromTarsum ext (Digest_String dgst) = Inr Version1"
    and "newFileReader ext (fileWriter.driver (fileWriter lw)) (path (fileWriter lw)) (backend w) = (Inl err, b)"
  shows "validateLayer ext lw dgst w =
     (Inl err, \<lparr>backend = b, journal = journal w @ [CallNewFileReader (path (fileWriter lw))]\<rparr>)"
  using assms by (simp add: validateLayer_def callNewFileReader_def)

lemma validateLayer_read:
  assumes "GetVersionFromTarsum ext (Digest_String dgst) = Inr Version1"
    and "newFileReader ext (fileWriter.driver (fileWriter lw)) (path (fileWriter lw)) (backend w) = (Inr fr, b)"
  shows "validateLayer ext lw dgst w =
     ((case failure fr of
         Some e \<Rightarrow> Inl e
       | None \<Rightarrow>
          (case tarSum ext (concat (chunks fr)) of
             Inl e \<Rightarrow> Inl e
           | Inr canonical \<Rightarrow>
               if sumsTo ext dgst (concat (chunks fr)) then Inr canonical
               else Inl (ErrLayerInvalidDigest dgst (Errorf ''content does not match digest'')))),
      \<lparr>backend = b,
       journal = journal w @ CallNewFileReader (path (fileWriter lw)) # map CallVerifierWrite (chunks fr)\<rparr>)"
  using assms
  by (simp add: validateLayer_def callNewFileReader_def FromTarArchive_eq Verified_def
      NewDigestVerifier_def split: option.splits sum.splits)

lemma moveLayer_exists:
  assumes "pm (registry (repository (layerStore lw))) (blobDataPathSpec dgst) = Inr blobPath"
    and "Stat (fileWriter.driver (fileWriter lw)) (backend w) blobPath = (Inr fi, b)"
  shows "moveLayer ext lw dgst w = (None, \<lparr>backend = b, journal = journal w @ [CallStat blobPath]\<rparr>)"
  using assms by (simp add: moveLayer_def callStat_def)

lemma moveLayer_absent:
  assumes "pm (registry (repository (layerStore lw))) (blobDataPathSpec dgst) = Inr blobPath"
    and "Stat (fileWriter.driver (fileWriter lw)) (backend w) blobPath = (Inl (PathNotFoundError p), b1)"
    and "Stat (fileWriter.driver (fileWriter lw)) b1 (path (fileWriter lw)) = (r, b2)"
  shows "moveLayer ext lw dgst w =
     (case r of
        Inr fi \<Rightarrow>
          (case Move (fileWriter.driver (fileWriter lw)) b2 (path (fileWriter lw)) blobPath of
             (m, b3) \<Rightarrow> (m, \<lparr>backend = b3, journal = journal w @
                [CallStat blobPath, CallStat (path (fileWriter lw)), CallMove (path (fileWriter lw)) blobPath]\<rparr>))
      | Inl (PathNotFoundError q) \<Rightarrow>
          if dgst = DigestTarSumV1EmptyTar ext
          then (case PutContent (fileWriter.driver (fileWriter lw)) b2 blobPath [] of
             (m, b3) \<Rightarrow> (m, \<lparr>backend = b3, journal = journal w @
                [CallStat blobPath, CallStat (path (fileWriter lw)), CallPutContent blobPath []]\<rparr>))
          else (case Move (fileWriter.driver (fileWriter lw)) b2 (path (fileWriter lw)) blobPath of
             (m, b3) \<Rightarrow> (m, \<lparr>backend = b3, journal = journal w @
                [CallStat blobPath, CallStat (path (fileWriter lw)), CallMove (path (fileWriter lw)) blobPath]\<rparr>))
      | Inl err \<Rightarrow> (Some err, \<lparr>backend = b2, journal = journal w @
                [CallStat blobPath, CallStat (path (fileWriter lw))]\<rparr>))"
  using assms
  by (simp add: moveLayer_def callStat_def callMove_def callPutContent_def
      split: sum.splits error.splits prod.splits)

lemma moveLayer_stat_error:
  assumes "pm (registry (repository (layerStore lw))) (blobDataPathSpec dgst) = Inr blobPath"
    and "Stat (fileWriter.driver (fileWriter lw)) (backend w) blobPath = (Inl err, b1)"
    and "\<forall>p. err \<noteq> PathNotFoundError p"
  shows "moveLayer ext lw dgst w = (Some err, \<lparr>backend = b1, journal = journal w @ [CallStat blobPath]\<rparr>)"
  using assms by (cases err) (simp_all add: moveLayer_def callStat_def)

lemma removeResources_eq:
  assumes "pm (registry (repository (layerStore lw)))
             (uploadDataPathSpec (repository.Name (repository (layerStore lw))) (uuid lw)) = Inr dataPath"
    and "Delete (fileWriter.driver (fileWriter lw)) (backend w) (Dir ext dataPath) = (r, b)"
  shows "removeResources ext lw w =
     ((case r of None \<Rightarrow> None | Some (PathNotFoundError p) \<Rightarrow> None | Some err \<Rightarrow> Some err),
      \<lparr>backend = b, journal = journal w @ [CallDelete (Dir ext dataPath)]\<rparr>)"
  using assms
  by (simp add: removeResources_def callDelete_def split: option.splits error.splits)

text \<open>Validation journals nothing but the opening of the reader and the verifier's writes.\<close>

lemma validateLayer_journal:
  "\<exists>j. journal (snd (validateLayer ext lw dgst w)) = journal w @ j \<and>
     (\<forall>c\<in>set j. c = CallNewFileReader (path (fileWriter lw)) \<or> (\<exists>p. c = CallVerifierWrite p))"
proof (cases "GetVersionFromTarsum ext (Digest_String dgst)")
  case (Inl err)
  then show ?thesis by (simp add: validateLayer_no_version)
next
  case (Inr version)
  show ?thesis
  proof (cases "version = Version1")
    case False
    with Inr show ?thesis by (simp add: validateLayer_unsupported)
  next
    case True
    obtain r b where opened:
      "newFileReader ext (fileWriter.driver (fileWriter lw)) (path (fileWriter lw)) (backend w) = (r, b)"
      by (cases "newFileReader ext (fileWriter.driver (fileWriter lw)) (path (fileWriter lw)) (backend w)")
    show ?thesis
    proof (cases r)
      case (Inl err)
      with Inr True opened show ?thesis by (simp add: validateLayer_no_reader)
    next
      case (Inr fr)
      with \<open>GetVersionFromTarsum ext (Digest_String dgst) = Inr version\<close> True opened
      have "journal (snd (validateLayer ext lw dgst w)) =
          journal w @ CallNewFileReader (path (fileWriter lw)) # map CallVerifierWrite (chunks fr)"
        by (simp add: validateLayer_read)
      then show ?thesis by auto
    qed
  qed
qed

text \<open>
  What each phase adds to the journal, and what a \<^verbatim>\<open>Finish\<close> that returned a layer has
  gone through.
\<close>

lemma moveLayer_calls:
  assumes "pm (registry (repository (layerStore lw))) (blobDataPathSpec dgst) = Inr blobPath"
  shows "\<exists>j. journal (snd (moveLayer ext lw dgst w)) = journal w @ j \<and>
     (\<forall>c\<in>set j. c = CallStat blobPath \<or> c = CallStat (path (fileWriter lw)) \<or>
        c = CallMove (path (fileWriter lw)) blobPath \<or> c = CallPutContent blobPath [])"
  using assms
  by (auto simp: moveLayer_def callStat_def callMove_def callPutContent_def
      split: sum.splits prod.splits error.splits)

lemma moveLayer_done:
  assumes "moveLayer ext lw dgst w = (None, w')"
  shows "\<exists>blobPath. pm (registry (repository (layerStore lw))) (blobDataPathSpec dgst) = Inr blobPath"
  using assms by (cases "pm (registry (repository (layerStore lw))) (blobDataPathSpec dgst)")
    (simp_all add: moveLayer_def)

lemma linkLayer_done:
  assumes "linkLayer lw dgst w = (None, w')"
  shows "\<exists>layerLinkPath.
     pm (registry (repository (layerStore lw)))
        (layerLinkPathSpec (repository.Name (repository (layerStore lw))) dgst) = Inr layerLinkPath \<and>
     journal w' = journal w @ [CallPutContent layerLinkPath dgst]"
  using assms
  by (auto simp: linkLayer_def callPutContent_def split: sum.splits prod.splits)

lemma removeResources_done:
  assumes "removeResources ext lw w = (None, w')"
  shows "\<exists>dataPath.
     pm (registry (repository (layerStore lw)))
        (uploadDataPathSpec (repository.Name (repository (layerStore lw))) (uuid lw)) = Inr dataPath \<and>
     journal w' = journal w @ [CallDelete (Dir ext dataPath)]"
  using assms
  by (auto simp: removeResources_def callDelete_def Let_def
      split: sum.splits prod.splits option.splits error.splits)

lemma Finish_done:
  assumes "Finish ext lw dgst w = (Inr layer, w')"
  shows "\<exists>canonical w1 w2 w3 w4.
     validateLayer ext lw dgst w = (Inr canonical, w1) \<and>
     moveLayer ext lw canonical w1 = (None, w2) \<and>
     linkLayer lw canonical w2 = (None, w3) \<and>
     removeResources ext lw w3 = (None, w4) \<and>
     callFetch ext (layerStore lw) canonical w4 = (Inr layer, w')"
  using assms
  by (auto simp: Finish_def split: sum.splits prod.splits option.splits)

lemma Finish_order:
  assumes "Finish ext lw dgst w = (Inr layer, w')"
  shows "\<exists>canonical blobPath layerLinkPath dataPath jv jm.
     pm (registry (repository (layerStore lw))) (blobDataPathSpec canonical) = Inr blobPath \<and>
     pm (registry (repository (layerStore lw)))
        (layerLinkPathSpec (repository.Name (repository (layerStore lw))) canonical) = Inr layerLinkPath \<and>
     pm (registry (repository (layerStore lw)))
        (uploadDataPathSpec (repository.Name (repository (layerStore lw))) (uuid lw)) = Inr dataPath \<and>
     journal w' = journal w @ jv @ jm @
        [CallPutContent layerLinkPath canonical, CallDelete (Dir ext dataPath), CallFetch canonical] \<and>
     (\<forall>c\<in>set jv. c = CallNewFileReader (path (fileWriter lw)) \<or> (\<exists>p. c = CallVerifierWrite p)) \<and>
     (\<forall>c\<in>set jm. c = CallStat blobPath \<or> c = CallStat (path (fileWriter lw)) \<or>
        c = CallMove (path (fileWriter lw)) blobPath \<or> c = CallPutContent blobPath [])"
proof -
  from Finish_done [OF assms] obtain canonical w1 w2 w3 w4 where
    validated: "validateLayer ext lw dgst w = (Inr canonical, w1)"
    and moved: "moveLayer ext lw canonical w1 = (None, w2)"
    and linked: "linkLayer lw canonical w2 = (None, w3)"
    and removed: "removeResources ext lw w3 = (None, w4)"
    and fetched: "callFetch ext (layerStore lw) canonical w4 = (Inr layer, w')"
    by blast
  from validateLayer_journal [of ext lw dgst w] validated obtain jv where
    jv: "journal w1 = journal w @ jv"
      "\<forall>c\<in>set jv. c = CallNewFileReader (path (fileWriter lw)) \<or> (\<exists>p. c = CallVerifierWrite p)"
    by auto
  from moveLayer_done [OF moved] obtain blobPath where
    blobPath: "pm (registry (repository (layerStore lw))) (blobDataPathSpec canonical) = Inr blobPath"
    ..
  from moveLayer_calls [OF blobPath, of ext w1] moved obtain jm where
    jm: "journal w2 = journal w1 @ jm"
      "\<forall>c\<in>set jm. c = CallStat blobPath \<or> c = CallStat (path (fileWriter lw)) \<or>
        c = CallMove (path (fileWriter lw)) blobPath \<or> c = CallPutContent blobPath []"
    by auto
  from linkLayer_done [OF linked] obtain layerLinkPath where
    link: "pm (registry (repository (layerStore lw)))
        (layerLinkPathSpec (repository.Name (repository (layerStore lw))) canonical) = Inr layerLinkPath"
      "journal w3 = journal w2 @ [CallPutContent layerLinkPath canonical]"
    by blast
  from removeResources_done [OF removed] obtain dataPath where
    cleanup: "pm (registry (repository (layerStore lw)))
        (uploadDataPathSpec (repository.Name (repository (layerStore lw))) (uuid lw)) = Inr dataPath"
      "journal w4 = journal w3 @ [CallDelete (Dir ext dataPath)]"
    by blast
  from fetched have "journal w' = journal w4 @ [CallFetch canonical]"
    by (auto simp: callFetch_def split: prod.splits)
  with jv(1) jm(1) link(2) cleanup(2)
  have "journal w' = journal w @ jv @ jm @
      [CallPutContent layerLinkPath canonical, CallDelete (Dir ext dataPath), CallFetch canonical]"
    by simp
  with blobPath link(1) cleanup(1) jv(2) jm(2) show ?thesis
    by blast
qed

section \<open>Finish: the order of the phases\<close>

text \<open>
  C1. \<^verbatim>\<open>Finish\<close> runs validate, move, link and cleanup in this order. A phase is entered
  only with the world its predecessor left after succeeding. When a phase returns an
  error, \<^verbatim>\<open>Finish\<close> returns that error together with the world of that phase as it is: no
  later phase runs and nothing already done is undone. In particular an error of the
  cleanup, after the move and the link have succeeded, is the result of \<^verbatim>\<open>Finish\<close>. Only
  when all four have succeeded is the layer fetched; the journal of such a \<^verbatim>\<open>Finish\<close> then
  shows the four in their order: the reading, the stats with the move or the put of the
  blob, the put of the link, the delete of the scratch directory, and last the fetch.
\<close>

theorem Finish_phases:
  "(validateLayer ext lw dgst w = (Inl err, w1) \<longrightarrow> Finish ext lw dgst w = (Inl err, w1)) \<and>
   (validateLayer ext lw dgst w = (Inr canonical, w1) \<and>
    moveLayer ext lw canonical w1 = (Some err, w2)
      \<longrightarrow> Finish ext lw dgst w = (Inl err, w2)) \<and>
   (validateLayer ext lw dgst w = (Inr canonical, w1) \<and>
    moveLayer ext lw canonical w1 = (None, w2) \<and>
    linkLayer lw canonical w2 = (Some err, w3)
      \<longrightarrow> Finish ext lw dgst w = (Inl err, w3)) \<and>
   (validateLayer ext lw dgst w = (Inr canonical, w1) \<and>
    moveLayer ext lw canonical w1 = (None, w2) \<and>
    linkLayer lw canonical w2 = (None, w3) \<and>
    removeResources ext lw w3 = (Some err, w4)
      \<longrightarrow> Finish ext lw dgst w = (Inl err, w4)) \<and>
   (validateLayer ext lw dgst w = (Inr canonical, w1) \<and>
    moveLayer ext lw canonical w1 = (None, w2) \<and>
    linkLayer lw canonical w2 = (None, w3) \<and>
    removeResources ext lw w3 = (None, w4)
      \<longrightarrow> Finish ext lw dgst w = callFetch ext (layerStore lw) canonical w4) \<and>
   (Finish ext lw dgst w = (Inr layer, w')
      \<longrightarrow> (\<exists>canonical blobPath layerLinkPath dataPath jv jm.
            pm (registry (repository (layerStore lw))) (blobDataPathSpec canonical) = Inr blobPath \<and>
            pm (registry (repository (layerStore lw)))
               (layerLinkPathSpec (repository.Name (repository (layerStore lw))) canonical) =
              Inr layerLinkPath \<and>
            pm (registry (repository (layerStore lw)))
               (uploadDataPathSpec (repository.Name (repository (layerStore lw))) (uuid lw)) =
              Inr dataPath \<and>
            journal w' = journal w @ jv @ jm @
               [CallPutContent layerLinkPath canonical, CallDelete (Dir ext dataPath), CallFetch canonical] \<and>
            (\<forall>c\<in>set jv. c = CallNewFileReader (path (fileWriter lw)) \<or> (\<exists>p. c = CallVerifierWrite p)) \<and>
            (\<forall>c\<in>set jm. c = CallStat blobPath \<or> c = CallStat (path (fileWriter lw)) \<or>
               c = CallMove (path (fileWriter lw)) blobPath \<or> c = CallPutContent blobPath [])))"
proof -
  have "Finish ext lw dgst w = (Inr layer, w')
      \<longrightarrow> (\<exists>canonical blobPath layerLinkPath dataPath jv jm.
            pm (registry (repository (layerStore lw))) (blobDataPathSpec canonical) = Inr blobPath \<and>
            pm (registry (repository (layerStore lw)))
               (layerLinkPathSpec (repository.Name (repository (layerStore lw))) canonical) =
              Inr layerLinkPath \<and>
            pm (registry (repository (layerStore lw)))
               (uploadDataPathSpec (repository.Name (repository (layerStore lw))) (uuid lw)) =
              Inr dataPath \<and>
            journal w' = journal w @ jv @ jm @
               [CallPutContent layerLinkPath canonical, CallDelete (Dir ext dataPath), CallFetch canonical] \<and>
            (\<forall>c\<in>set jv. c = CallNewFileReader (path (fileWriter lw)) \<or> (\<exists>p. c = CallVerifierWrite p)) \<and>
            (\<forall>c\<in>set jm. c = CallStat blobPath \<or> c = CallStat (path (fileWriter lw)) \<or>
               c = CallMove (path (fileWriter lw)) blobPath \<or> c = CallPutContent blobPath []))"
    using Finish_order by blast
  then show ?thesis
    by (simp add: Finish_def)
qed

theorem Finish_phases_witness:
  "Finish localExternals (sessionOn inmemoryDriver) ''tarsum.v1+sha256:ab'' (uploaded ''ac'') =
     (Inl (ErrLayerInvalidDigest ''tarsum.v1+sha256:ab'' (Errorf ''content does not match digest'')),
      \<lparr>backend = [(''/repo/lib/_uploads/abc123/data'', ''ac'')],
       journal = [CallNewFileReader ''/repo/lib/_uploads/abc123/data'',
                  CallVerifierWrite ''a'', CallVerifierWrite ''c'']\<rparr>) \<and>
   Finish localExternals (sessionOn (faultyDriver ''Move'')) ''tarsum.v1+sha256:ab'' (uploaded ''ab'') =
     (Inl (Errorf ''backend unavailable''),
      \<lparr>backend = [(''/repo/lib/_uploads/abc123/data'', ''ab'')],
       journal = [CallNewFileReader ''/repo/lib/_uploads/abc123/data'',
                  CallVerifierWrite ''a'', CallVerifierWrite ''b'',
                  CallStat ''/blobs/tarsum.v1+sha256:ab'',
                  CallStat ''/repo/lib/_uploads/abc123/data'',
                  CallMove ''/repo/lib/_uploads/abc123/data'' ''/blobs/tarsum.v1+sha256:ab'']\<rparr>) \<and>
   Finish localExternals (sessionOn (faultyDriver ''PutContent'')) ''tarsum.v1+sha256:ab'' (uploaded ''ab'') =
     (Inl (Errorf ''backend unavailable''),
      \<lparr>backend = [(''/blobs/tarsum.v1+sha256:ab'', ''ab'')],
       journal = [CallNewFileReader ''/repo/lib/_uploads/abc123/data'',
                  CallVerifierWrite ''a'', CallVerifierWrite ''b'',
                  CallStat ''/blobs/tarsum.v1+sha256:ab'',
                  CallStat ''/repo/lib/_uploads/abc123/data'',
                  CallMove ''/repo/lib/_uploads/abc123/data'' ''/blobs/tarsum.v1+sha256:ab'',
                  CallPutContent ''/repo/lib/_layers/tarsum.v1+sha256:ab'' ''tarsum.v1+sha256:ab'']\<rparr>) \<and>
   Finish localExternals (sessionOn (faultyDriver ''Delete'')) ''tarsum.v1+sha256:ab'' (uploaded ''ab'') =
     (Inl (Errorf ''backend unavailable''),
      \<lparr>backend = [(''/repo/lib/_layers/tarsum.v1+sha256:ab'', ''tarsum.v1+sha256:ab''),
                  (''/blobs/tarsum.v1+sha256:ab'', ''ab'')],
       journal = [CallNewFileReader ''/repo/lib/_uploads/abc123/data'',
                  CallVerifierWrite ''a'', CallVerifierWrite ''b'',
                  CallStat ''/blobs/tarsum.v1+sha256:ab'',
                  CallStat ''/repo/lib/_uploads/abc123/data'',
                  CallMove ''/repo/lib/_uploads/abc123/data'' ''/blobs/tarsum.v1+sha256:ab'',
                  CallPutContent ''/repo/lib/_layers/tarsum.v1+sha256:ab'' ''tarsum.v1+sha256:ab'',
                  CallDelete ''/repo/lib/_uploads/abc123'']\<rparr>) \<and>
   Finish localExternals (sessionOn inmemoryDriver) ''tarsum.v1+sha256:ab'' (uploaded ''ab'') =
     (Inr \<lparr>LayerDigest = ''tarsum.v1+sha256:ab'', LayerLength = 2\<rparr>,
      \<lparr>backend = [(''/repo/lib/_layers/tarsum.v1+sha256:ab'', ''tarsum.v1+sha256:ab''),
                  (''/blobs/tarsum.v1+sha256:ab'', ''ab'')],
       journal = [CallNewFileReader ''/repo/lib/_uploads/abc123/data'',
                  CallVerifierWrite ''a'', CallVerifierWrite ''b'',
                  CallStat ''/blobs/tarsum.v1+sha256:ab'',
                  CallStat ''/repo/lib/_uploads/abc123/data'',
                  CallMove ''/repo/lib/_uploads/abc123/data'' ''/blobs/tarsum.v1+sha256:ab'',
                  CallPutContent ''/repo/lib/_layers/tarsum.v1+sha256:ab'' ''tarsum.v1+sha256:ab'',
                  CallDelete ''/repo/lib/_uploads/abc123'',
                  CallFetch ''tarsum.v1+sha256:ab'']\<rparr>) \<and>
   (\<exists>jv jm.
      [CallNewFileReader ''/repo/lib/_uploads/abc123/data'',
       CallVerifierWrite ''a'', CallVerifierWrite ''b'',
       CallStat ''/blobs/tarsum.v1+sha256:ab'',
       CallStat ''/repo/lib/_uploads/abc123/data'',
       CallMove ''/repo/lib/_uploads/abc123/data'' ''/blobs/tarsum.v1+sha256:ab'',
       CallPutContent ''/repo/lib/_layers/tarsum.v1+sha256:ab'' ''tarsum.v1+sha256:ab'',
       CallDelete ''/repo/lib/_uploads/abc123'',
       CallFetch ''tarsum.v1+sha256:ab''] =
      jv @ jm @
      [CallPutContent ''/repo/lib/_layers/tarsum.v1+sha256:ab'' ''tarsum.v1+sha256:ab'',
       CallDelete ''/repo/lib/_uploads/abc123'',
       CallFetch ''tarsum.v1+sha256:ab''] \<and>
      (\<forall>c\<in>set jv. c = CallNewFileReader ''/repo/lib/_uploads/abc123/data'' \<or>
         (\<exists>p. c = CallVerifierWrite p)) \<and>
      (\<forall>c\<in>set jm. c = CallStat ''/blobs/tarsum.v1+sha256:ab'' \<or>
         c = CallStat ''/repo/lib/_uploads/abc123/data'' \<or>
         c = CallMove ''/repo/lib/_uploads/abc123/data'' ''/blobs/tarsum.v1+sha256:ab'' \<or>
         c = CallPutContent ''/blobs/tarsum.v1+sha256:ab'' []))"
proof -
  let ?d = "''tarsum.v1+sha256:ab''"
  let ?scratch = "''/repo/lib/_uploads/abc123/data''"
  let ?blob = "''/blobs/tarsum.v1+sha256:ab''"
  let ?link = "''/repo/lib/_layers/tarsum.v1+sha256:ab''"
  let ?read = "[CallNewFileReader ?scratch, CallVerifierWrite ''a'', CallVerifierWrite ''b'']"
  let ?moved = "?read @ [CallStat ?blob, CallStat ?scratch, CallMove ?scratch ?blob]"
  let ?linked = "?moved @ [CallPutContent ?link ?d]"
  let ?w1 = "\<lparr>backend = [(?scratch, ''ab'')], journal = ?read\<rparr>"
  let ?w2 = "\<lparr>backend = [(?blob, ''ab'')], journal = ?moved\<rparr>"
  let ?w3 = "\<lparr>backend = [(?link, ?d), (?blob, ''ab'')], journal = ?linked\<rparr>"
  have validated: "validateLayer localExternals (sessionOn (faultyDriver op)) ?d (uploaded ''ab'') = (Inr ?d, ?w1)"
    for op
    by (simp add: phase_defs local_defs)
  have moved: "op \<noteq> ''Move'' \<Longrightarrow> op \<noteq> ''Stat'' \<Longrightarrow>
      moveLayer localExternals (sessionOn (faultyDriver op)) ?d ?w1 = (None, ?w2)" for op
    by (simp add: phase_defs local_defs)
  have linked: "op \<noteq> ''PutContent'' \<Longrightarrow> linkLayer (sessionOn (faultyDriver op)) ?d ?w2 = (None, ?w3)" for op
    by (simp add: phase_defs local_defs)
  have plain: "inmemoryDriver = faultyDriver []"
    by (simp add: local_defs)
  have "validateLayer localExternals (sessionOn inmemoryDriver) ?d (uploaded ''ac'') =
      (Inl (ErrLayerInvalidDigest ?d (Errorf ''content does not match digest'')),
       \<lparr>backend = [(?scratch, ''ac'')],
        journal = [CallNewFileReader ?scratch, CallVerifierWrite ''a'', CallVerifierWrite ''c'']\<rparr>)"
    by (simp add: phase_defs local_defs)
  with Finish_phases have one: "Finish localExternals (sessionOn inmemoryDriver) ?d (uploaded ''ac'') =
      (Inl (ErrLayerInvalidDigest ?d (Errorf ''content does not match digest'')),
       \<lparr>backend = [(?scratch, ''ac'')],
        journal = [CallNewFileReader ?scratch, CallVerifierWrite ''a'', CallVerifierWrite ''c'']\<rparr>)"
    by blast
  have "moveLayer localExternals (sessionOn (faultyDriver ''Move'')) ?d ?w1 =
      (Some (Errorf ''backend unavailable''),
       \<lparr>backend = [(?scratch, ''ab'')], journal = ?moved\<rparr>)"
    by (simp add: phase_defs local_defs)
  with Finish_phases validated have two: "Finish localExternals (sessionOn (faultyDriver ''Move'')) ?d (uploaded ''ab'') =
      (Inl (Errorf ''backend unavailable''), \<lparr>backend = [(?scratch, ''ab'')], journal = ?moved\<rparr>)"
    by blast
  have "linkLayer (sessionOn (faultyDriver ''PutContent'')) ?d ?w2 =
      (Some (Errorf ''backend unavailable''), \<lparr>backend = [(?blob, ''ab'')], journal = ?linked\<rparr>)"
    by (simp add: phase_defs local_defs)
  with Finish_phases validated moved [of "''PutContent''"]
  have three: "Finish localExternals (sessionOn (faultyDriver ''PutContent'')) ?d (uploaded ''ab'') =
      (Inl (Errorf ''backend unavailable''), \<lparr>backend = [(?blob, ''ab'')], journal = ?linked\<rparr>)"
    by (simp (no_asm_use)) blast
  have "removeResources localExternals (sessionOn (faultyDriver ''Delete'')) ?w3 =
      (Some (Errorf ''backend unavailable''),
       \<lparr>backend = [(?link, ?d), (?blob, ''ab'')],
        journal = ?linked @ [CallDelete ''/repo/lib/_uploads/abc123'']\<rparr>)"
    by (simp add: phase_defs local_defs)
  with Finish_phases validated moved [of "''Delete''"] linked [of "''Delete''"]
  have four: "Finish localExternals (sessionOn (faultyDriver ''Delete'')) ?d (uploaded ''ab'') =
      (Inl (Errorf ''backend unavailable''),
       \<lparr>backend = [(?link, ?d), (?blob, ''ab'')],
        journal = ?linked @ [CallDelete ''/repo/lib/_uploads/abc123'']\<rparr>)"
    by (simp (no_asm_use)) blast
  let ?w4 = "\<lparr>backend = [(?link, ?d), (?blob, ''ab'')],
             journal = ?linked @ [CallDelete ''/repo/lib/_uploads/abc123'']\<rparr>"
  have "removeResources localExternals (sessionOn (faultyDriver [])) ?w3 = (None, ?w4)"
    by (simp add: phase_defs local_defs)
  with Finish_phases validated moved [of "[]"] linked [of "[]"]
  have "Finish localExternals (sessionOn (faultyDriver [])) ?d (uploaded ''ab'') =
      callFetch localExternals (layerStore (sessionOn (faultyDriver []))) ?d ?w4"
    by (simp (no_asm_use)) blast
  then have five: "Finish localExternals (sessionOn inmemoryDriver) ?d (uploaded ''ab'') =
      (Inr \<lparr>LayerDigest = ?d, LayerLength = 2\<rparr>,
       \<lparr>backend = [(?link, ?d), (?blob, ''ab'')],
        journal = ?linked @ [CallDelete ''/repo/lib/_uploads/abc123'', CallFetch ?d]\<rparr>)"
    by (simp add: plain [symmetric] phase_defs local_defs)
  from Finish_phases [THEN conjunct2, THEN conjunct2, THEN conjunct2, THEN conjunct2, THEN conjunct2,
      rule_format, OF five]
  obtain canonical blobPath layerLinkPath dataPath jv jm where
    blobPath: "pm (registry (repository (layerStore (sessionOn inmemoryDriver))))
        (blobDataPathSpec canonical) = Inr blobPath"
    and linkPath: "pm (registry (repository (layerStore (sessionOn inmemoryDriver))))
        (layerLinkPathSpec (repository.Name (repository (layerStore (sessionOn inmemoryDriver)))) canonical) =
        Inr layerLinkPath"
    and dataPath: "pm (registry (repository (layerStore (sessionOn inmemoryDriver))))
        (uploadDataPathSpec (repository.Name (repository (layerStore (sessionOn inmemoryDriver))))
           (uuid (sessionOn inmemoryDriver))) = Inr dataPath"
    and order: "journal \<lparr>backend = [(?link, ?d), (?blob, ''ab'')],
        journal = ?linked @ [CallDelete ''/repo/lib/_uploads/abc123'', CallFetch ?d]\<rparr> =
        journal (uploaded ''ab'') @ jv @ jm @
        [CallPutContent layerLinkPath canonical, CallDelete (Dir localExternals dataPath),
         CallFetch canonical]"
    and reading: "\<forall>c\<in>set jv. c = CallNewFileReader (path (fileWriter (sessionOn inmemoryDriver))) \<or>
        (\<exists>p. c = CallVerifierWrite p)"
    and moving: "\<forall>c\<in>set jm. c = CallStat blobPath \<or>
        c = CallStat (path (fileWriter (sessionOn inmemoryDriver))) \<or>
        c = CallMove (path (fileWriter (sessionOn inmemoryDriver))) blobPath \<or>
        c = CallPutContent blobPath []"
    by blast
  from order have same: "canonical = ?d"
    by (simp add: uploaded_def)
  with blobPath linkPath dataPath have paths: "blobPath = ?blob" "layerLinkPath = ?link"
      "dataPath = ''/repo/lib/_uploads/abc123/data''"
    by (simp_all add: sessionOn_def paths_def)
  have six: "\<exists>jv jm.
      ?linked @ [CallDelete ''/repo/lib/_uploads/abc123'', CallFetch ?d] =
      jv @ jm @ [CallPutContent ?link ?d, CallDelete ''/repo/lib/_uploads/abc123'', CallFetch ?d] \<and>
      (\<forall>c\<in>set jv. c = CallNewFileReader ?scratch \<or> (\<exists>p. c = CallVerifierWrite p)) \<and>
      (\<forall>c\<in>set jm. c = CallStat ?blob \<or> c = CallStat ?scratch \<or>
         c = CallMove ?scratch ?blob \<or> c = CallPutContent ?blob [])"
  proof (intro exI conjI)
    from order same paths
    show "?linked @ [CallDelete ''/repo/lib/_uploads/abc123'', CallFetch ?d] =
        jv @ jm @ [CallPutContent ?link ?d, CallDelete ''/repo/lib/_uploads/abc123'', CallFetch ?d]"
      by (simp add: uploaded_def localExternals_def dirOf_def)
    from reading show "\<forall>c\<in>set jv. c = CallNewFileReader ?scratch \<or> (\<exists>p. c = CallVerifierWrite p)"
      by (simp add: sessionOn_def)
    from moving paths show "\<forall>c\<in>set jm. c = CallStat ?blob \<or> c = CallStat ?scratch \<or>
         c = CallMove ?scratch ?blob \<or> c = CallPutContent ?blob []"
      by (simp add: sessionOn_def)
  qed
  show ?thesis
    using one two three four five six by simp
qed

section \<open>Finish: the version gate\<close>

text \<open>
  C2. When the tarsum version of the claimed digest is any version other than
  \<^term>\<open>Version1\<close>, \<^verbatim>\<open>Finish\<close> returns the invalid-digest error whose reason is the
  unsupported version, and the world is the one it was called in: the journal has no new
  entry, so no reader was opened, no byte went to the verifier and no driver call (stat,
  put, move, delete) was made, and the backend is untouched.
\<close>

theorem Finish_version_gate:
  assumes "GetVersionFromTarsum ext (Digest_String dgst) = Inr version" and "version \<noteq> Version1"
  shows "Finish ext lw dgst w = (Inl (ErrLayerInvalidDigest dgst ErrLayerTarSumVersionUnsupported), w)"
  using validateLayer_unsupported [OF assms] by (simp add: Finish_def)

theorem Finish_version_gate_witness:
  "GetVersionFromTarsum localExternals (Digest_String ''tarsum+sha1:ab'') = Inr Version0 \<and>
   Version0 \<noteq> Version1 \<and>
   Finish localExternals (sessionOn inmemoryDriver) ''tarsum+sha1:ab'' (uploaded ''ab'') =
     (Inl (ErrLayerInvalidDigest ''tarsum+sha1:ab'' ErrLayerTarSumVersionUnsupported), uploaded ''ab'') \<and>
   GetVersionFromTarsum localExternals (Digest_String ''tarsum.dev+sha256:ab'') = Inr VersionDev \<and>
   VersionDev \<noteq> Version1 \<and>
   Finish localExternals (sessionOn inmemoryDriver) ''tarsum.dev+sha256:ab'' (uploaded ''ab'') =
     (Inl (ErrLayerInvalidDigest ''tarsum.dev+sha256:ab'' ErrLayerTarSumVersionUnsupported), uploaded ''ab'')"
proof -
  have v0: "GetVersionFromTarsum localExternals (Digest_String ''tarsum+sha1:ab'') = Inr Version0"
    by (simp add: localExternals_def tarsumVersion_def Digest_String_def)
  have dev: "GetVersionFromTarsum localExternals (Digest_String ''tarsum.dev+sha256:ab'') = Inr VersionDev"
    by (simp add: localExternals_def tarsumVersion_def Digest_String_def)
  show ?thesis
    using v0 dev Finish_version_gate [OF v0, of "sessionOn inmemoryDriver" "uploaded ''ab''"]
      Finish_version_gate [OF dev, of "sessionOn inmemoryDriver" "uploaded ''ab''"]
    by simp
qed

section \<open>Finish: a content that does not match\<close>

text \<open>
  Two uploads whose content does not hash to the claimed digest and whose \<^verbatim>\<open>Finish\<close> does
  not end in the content-mismatch error: a content that is not an archive, for which
  computing the canonical digest fails first, and a claimed digest of version 0, which is
  turned away before anything is read.
\<close>

theorem Finish_mismatch_counterexample:
  "\<not> sumsTo localExternals ''tarsum.v1+sha256:ab'' ''!c'' \<and>
   Finish localExternals (sessionOn inmemoryDriver) ''tarsum.v1+sha256:ab'' (uploaded ''!c'') =
     (Inl (Errorf ''archive/tar: invalid tar header''),
      \<lparr>backend = [(''/repo/lib/_uploads/abc123/data'', ''!c'')],
       journal = [CallNewFileReader ''/repo/lib/_uploads/abc123/data'',
                  CallVerifierWrite ''!'', CallVerifierWrite ''c'']\<rparr>) \<and>
   \<not> sumsTo localExternals ''tarsum+sha1:ab'' ''ac'' \<and>
   Finish localExternals (sessionOn inmemoryDriver) ''tarsum+sha1:ab'' (uploaded ''ac'') =
     (Inl (ErrLayerInvalidDigest ''tarsum+sha1:ab'' ErrLayerTarSumVersionUnsupported), uploaded ''ac'')"
  by (simp add: Finish_def phase_defs local_defs)

text \<open>
  C3, as the code has it. When the version is accepted, the reader over the scratch path
  opens and ends without a read error, and the canonical digest of what was read is
  computed, a content that does not hash to the claimed digest makes \<^verbatim>\<open>Finish\<close> return
  the content-mismatch error; by then every chunk of the content has been written to the
  verifier, in order, and nothing else has happened. Whenever validation fails, for this
  reason or an earlier one, \<^verbatim>\<open>Finish\<close> returns that error with the world validation left:
  the journal has grown by the opening of the reader and verifier writes at most, so no
  driver call was made and the cleanup did not run.
\<close>

theorem Finish_mismatch:
  "(GetVersionFromTarsum ext (Digest_String dgst) = Inr Version1 \<and>
    newFileReader ext (fileWriter.driver (fileWriter lw)) (path (fileWriter lw)) (backend w) = (Inr fr, b) \<and>
    failure fr = None \<and>
    tarSum ext (concat (chunks fr)) = Inr canonical \<and>
    \<not> sumsTo ext dgst (concat (chunks fr))
    \<longrightarrow> Finish ext lw dgst w =
      (Inl (ErrLayerInvalidDigest dgst (Errorf ''content does not match digest'')),
       \<lparr>backend = b,
        journal = journal w @ CallNewFileReader (path (fileWriter lw)) # map CallVerifierWrite (chunks fr)\<rparr>)) \<and>
   (validateLayer ext lw dgst w = (Inl err, w1)
    \<longrightarrow> Finish ext lw dgst w = (Inl err, w1) \<and>
        (\<exists>j. journal w1 = journal w @ j \<and>
           (\<forall>c\<in>set j. c = CallNewFileReader (path (fileWriter lw)) \<or> (\<exists>p. c = CallVerifierWrite p))))"
proof (intro conjI impI)
  assume "GetVersionFromTarsum ext (Digest_String dgst) = Inr Version1 \<and>
    newFileReader ext (fileWriter.driver (fileWriter lw)) (path (fileWriter lw)) (backend w) = (Inr fr, b) \<and>
    failure fr = None \<and>
    tarSum ext (concat (chunks fr)) = Inr canonical \<and>
    \<not> sumsTo ext dgst (concat (chunks fr))"
  then show "Finish ext lw dgst w =
      (Inl (ErrLayerInvalidDigest dgst (Errorf ''content does not match digest'')),
       \<lparr>backend = b,
        journal = journal w @ CallNewFileReader (path (fileWriter lw)) # map CallVerifierWrite (chunks fr)\<rparr>)"
    by (simp add: Finish_def validateLayer_read)
next
  assume failed: "validateLayer ext lw dgst w = (Inl err, w1)"
  then show "Finish ext lw dgst w = (Inl err, w1)"
    by (simp add: Finish_def)
  from validateLayer_journal [of ext lw dgst w] failed
  show "\<exists>j. journal w1 = journal w @ j \<and>
           (\<forall>c\<in>set j. c = CallNewFileReader (path (fileWriter lw)) \<or> (\<exists>p. c = CallVerifierWrite p))"
    by simp
qed

theorem Finish_mismatch_witness:
  "GetVersionFromTarsum localExternals (Digest_String ''tarsum.v1+sha256:ab'') = Inr Version1 \<and>
   newFileReader localExternals (fileWriter.driver (fileWriter (sessionOn inmemoryDriver)))
       (path (fileWriter (sessionOn inmemoryDriver))) (backend (uploaded ''ac'')) =
     (Inr \<lparr>chunks = [''a'', ''c''], failure = None\<rparr>, [(''/repo/lib/_uploads/abc123/data'', ''ac'')]) \<and>
   tarSum localExternals (concat [''a'', ''c'']) = Inr ''tarsum.v1+sha256:ac'' \<and>
   \<not> sumsTo localExternals ''tarsum.v1+sha256:ab'' (concat [''a'', ''c'']) \<and>
   Finish localExternals (sessionOn inmemoryDriver) ''tarsum.v1+sha256:ab'' (uploaded ''ac'') =
     (Inl (ErrLayerInvalidDigest ''tarsum.v1+sha256:ab'' (Errorf ''content does not match digest'')),
      \<lparr>backend = [(''/repo/lib/_uploads/abc123/data'', ''ac'')],
       journal = [CallNewFileReader ''/repo/lib/_uploads/abc123/data'',
                  CallVerifierWrite ''a'', CallVerifierWrite ''c'']\<rparr>) \<and>
   validateLayer localExternals (sessionOn inmemoryDriver) ''tarsum.v1+sha256:ab'' (uploaded ''!c'') =
     (Inl (Errorf ''archive/tar: invalid tar header''),
      \<lparr>backend = [(''/repo/lib/_uploads/abc123/data'', ''!c'')],
       journal = [CallNewFileReader ''/repo/lib/_uploads/abc123/data'',
                  CallVerifierWrite ''!'', CallVerifierWrite ''c'']\<rparr>) \<and>
   Finish localExternals (sessionOn inmemoryDriver) ''tarsum.v1+sha256:ab'' (uploaded ''!c'') =
     (Inl (Errorf ''archive/tar: invalid tar header''),
      \<lparr>backend = [(''/repo/lib/_uploads/abc123/data'', ''!c'')],
       journal = [CallNewFileReader ''/repo/lib/_uploads/abc123/data'',
                  CallVerifierWrite ''!'', CallVerifierWrite ''c'']\<rparr>)"
proof -
  let ?fr = "\<lparr>chunks = [''a'', ''c''], failure = None\<rparr>"
  have version: "GetVersionFromTarsum localExternals (Digest_String ''tarsum.v1+sha256:ab'') = Inr Version1"
    by (simp add: localExternals_def tarsumVersion_def Digest_String_def)
  have reader: "newFileReader localExternals (fileWriter.driver (fileWriter (sessionOn inmemoryDriver)))
       (path (fileWriter (sessionOn inmemoryDriver))) (backend (uploaded ''ac'')) =
     (Inr ?fr, [(''/repo/lib/_uploads/abc123/data'', ''ac'')])"
    by (simp add: local_defs)
  have canonical: "tarSum localExternals (concat (chunks ?fr)) = Inr ''tarsum.v1+sha256:ac''"
    by (simp add: local_defs)
  have differs: "\<not> sumsTo localExternals ''tarsum.v1+sha256:ab'' (concat (chunks ?fr))"
    by (simp add: local_defs)
  have broken: "validateLayer localExternals (sessionOn inmemoryDriver) ''tarsum.v1+sha256:ab'' (uploaded ''!c'') =
     (Inl (Errorf ''archive/tar: invalid tar header''),
      \<lparr>backend = [(''/repo/lib/_uploads/abc123/data'', ''!c'')],
       journal = [CallNewFileReader ''/repo/lib/_uploads/abc123/data'',
                  CallVerifierWrite ''!'', CallVerifierWrite ''c'']\<rparr>)"
    by (simp add: phase_defs local_defs)
  note mismatch = Finish_mismatch [of localExternals "''tarsum.v1+sha256:ab''" "sessionOn inmemoryDriver"
      "uploaded ''ac''" ?fr "[(''/repo/lib/_uploads/abc123/data'', ''ac'')]" "''tarsum.v1+sha256:ac''",
      THEN conjunct1, rule_format]
  note early = Finish_mismatch [of localExternals "''tarsum.v1+sha256:ab''" "sessionOn inmemoryDriver"
      "uploaded ''!c''", THEN conjunct2, rule_format, OF broken, THEN conjunct1]
  have "Finish localExternals (sessionOn inmemoryDriver) ''tarsum.v1+sha256:ab'' (uploaded ''ac'') =
     (Inl (ErrLayerInvalidDigest ''tarsum.v1+sha256:ab'' (Errorf ''content does not match digest'')),
      \<lparr>backend = [(''/repo/lib/_uploads/abc123/data'', ''ac'')],
       journal = journal (uploaded ''ac'') @ CallNewFileReader (path (fileWriter (sessionOn inmemoryDriver))) #
          map CallVerifierWrite (chunks ?fr)\<rparr>)"
    using version reader canonical differs by (intro mismatch) simp
  then show ?thesis
    using version reader canonical differs broken early
    by (simp add: uploaded_def sessionOn_def)
qed

section \<open>The move: a blob that is already there\<close>

text \<open>
  On the reference backend a blob that was moved or put is found by the next stat, and a
  stat leaves the backend as it is.
\<close>

lemma inmemoryStat_after_Move:
  assumes "inmemoryMove b src dst = (None, b')"
  shows "\<exists>fi. inmemoryStat b' dst = (Inr fi, b')"
  using assms by (auto simp: inmemoryMove_def inmemoryStat_def split: option.splits)

lemma inmemoryStat_after_PutContent:
  assumes "inmemoryPutContent b p content = (None, b')"
  shows "\<exists>fi. inmemoryStat b' p = (Inr fi, b')"
  using assms by (auto simp: inmemoryPutContent_def inmemoryStat_def)

lemma inmemoryStat_backend:
  "snd (inmemoryStat b p) = b"
  by (simp add: inmemoryStat_def split: option.splits)

text \<open>
  C4. When the stat of the blob path of the digest finds something, \<^verbatim>\<open>moveLayer\<close> returns
  \<^verbatim>\<open>nil\<close> and that stat is the only call it has made: no move, no put, no delete. So on a
  driver that shows a blob once it was moved or put to its path, and keeps showing a blob
  it has shown, a second run of the phase after a successful first one makes this one
  stat and succeeds; the content is moved at most once.
\<close>

theorem moveLayer_idempotent:
  assumes blobPath: "pm (registry (repository (layerStore lw))) (blobDataPathSpec dgst) = Inr blobPath"
  shows "(Stat (fileWriter.driver (fileWriter lw)) (backend w) blobPath = (Inr fi, b)
          \<longrightarrow> moveLayer ext lw dgst w = (None, \<lparr>backend = b, journal = journal w @ [CallStat blobPath]\<rparr>)) \<and>
         ((\<forall>b0 src b'. Move (fileWriter.driver (fileWriter lw)) b0 src blobPath = (None, b')
              \<longrightarrow> (\<exists>fi' b''. Stat (fileWriter.driver (fileWriter lw)) b' blobPath = (Inr fi', b''))) \<and>
          (\<forall>b0 content b'. PutContent (fileWriter.driver (fileWriter lw)) b0 blobPath content = (None, b')
              \<longrightarrow> (\<exists>fi' b''. Stat (fileWriter.driver (fileWriter lw)) b' blobPath = (Inr fi', b''))) \<and>
          (\<forall>b0 fi0 b'. Stat (fileWriter.driver (fileWriter lw)) b0 blobPath = (Inr fi0, b')
              \<longrightarrow> (\<exists>fi' b''. Stat (fileWriter.driver (fileWriter lw)) b' blobPath = (Inr fi', b''))) \<and>
          moveLayer ext lw dgst w = (None, w1)
          \<longrightarrow> (\<exists>b2. moveLayer ext lw dgst w1 =
                  (None, \<lparr>backend = b2, journal = journal w1 @ [CallStat blobPath]\<rparr>)))"
proof (intro conjI impI)
  assume "Stat (fileWriter.driver (fileWriter lw)) (backend w) blobPath = (Inr fi, b)"
  with blobPath show "moveLayer ext lw dgst w = (None, \<lparr>backend = b, journal = journal w @ [CallStat blobPath]\<rparr>)"
    by (rule moveLayer_exists)
next
  let ?drv = "fileWriter.driver (fileWriter lw)"
  assume contract: "(\<forall>b0 src b'. Move ?drv b0 src blobPath = (None, b')
              \<longrightarrow> (\<exists>fi' b''. Stat ?drv b' blobPath = (Inr fi', b''))) \<and>
          (\<forall>b0 content b'. PutContent ?drv b0 blobPath content = (None, b')
              \<longrightarrow> (\<exists>fi' b''. Stat ?drv b' blobPath = (Inr fi', b''))) \<and>
          (\<forall>b0 fi0 b'. Stat ?drv b0 blobPath = (Inr fi0, b')
              \<longrightarrow> (\<exists>fi' b''. Stat ?drv b' blobPath = (Inr fi', b''))) \<and>
          moveLayer ext lw dgst w = (None, w1)"
  then have first: "moveLayer ext lw dgst w = (None, w1)"
    by simp
  have "\<exists>fi' b''. Stat ?drv (backend w1) blobPath = (Inr fi', b'')"
  proof -
    obtain r b1 where s1: "Stat ?drv (backend w) blobPath = (r, b1)"
      by (cases "Stat ?drv (backend w) blobPath")
    show ?thesis
    proof (cases r)
      case (Inr fi0)
      with blobPath s1 first have "backend w1 = b1"
        by (auto simp: moveLayer_exists)
      with contract s1 Inr show ?thesis by blast
    next
      case (Inl err)
      show ?thesis
      proof (cases "\<exists>p. err = PathNotFoundError p")
        case False
        with blobPath s1 Inl first show ?thesis
          by (simp add: moveLayer_stat_error)
      next
        case True
        then obtain p where "err = PathNotFoundError p" ..
        with s1 Inl have absent: "Stat ?drv (backend w) blobPath = (Inl (PathNotFoundError p), b1)"
          by simp
        obtain r2 b2 where s2: "Stat ?drv b1 (path (fileWriter lw)) = (r2, b2)"
          by (cases "Stat ?drv b1 (path (fileWriter lw))")
        obtain m b3 where mv: "Move ?drv b2 (path (fileWriter lw)) blobPath = (m, b3)"
          by (cases "Move ?drv b2 (path (fileWriter lw)) blobPath")
        obtain m' b3' where put: "PutContent ?drv b2 blobPath [] = (m', b3')"
          by (cases "PutContent ?drv b2 blobPath []")
        from first mv put
        have "(m = None \<and> backend w1 = b3) \<or> (m' = None \<and> backend w1 = b3')"
          unfolding moveLayer_absent [OF blobPath absent s2]
          by (auto split: sum.splits error.splits if_splits)
        with contract mv put show ?thesis by blast
      qed
    qed
  qed
  then obtain fi' b'' where "Stat ?drv (backend w1) blobPath = (Inr fi', b'')"
    by blast
  with blobPath have "moveLayer ext lw dgst w1 = (None, \<lparr>backend = b'', journal = journal w1 @ [CallStat blobPath]\<rparr>)"
    by (rule moveLayer_exists)
  then show "\<exists>b2. moveLayer ext lw dgst w1 = (None, \<lparr>backend = b2, journal = journal w1 @ [CallStat blobPath]\<rparr>)"
    ..
qed

theorem moveLayer_idempotent_witness:
  "pm (registry (repository (layerStore (sessionOn inmemoryDriver)))) (blobDataPathSpec ''tarsum.v1+sha256:ab'') =
     Inr ''/blobs/tarsum.v1+sha256:ab'' \<and>
   moveLayer localExternals (sessionOn inmemoryDriver) ''tarsum.v1+sha256:ab'' (uploaded ''ab'') =
     (None, \<lparr>backend = [(''/blobs/tarsum.v1+sha256:ab'', ''ab'')],
             journal = [CallStat ''/blobs/tarsum.v1+sha256:ab'',
                        CallStat ''/repo/lib/_uploads/abc123/data'',
                        CallMove ''/repo/lib/_uploads/abc123/data'' ''/blobs/tarsum.v1+sha256:ab'']\<rparr>) \<and>
   Stat (fileWriter.driver (fileWriter (sessionOn inmemoryDriver)))
       [(''/blobs/tarsum.v1+sha256:ab'', ''ab'')] ''/blobs/tarsum.v1+sha256:ab'' =
     (Inr \<lparr>Path = ''/blobs/tarsum.v1+sha256:ab'', Size = 2, IsDir = False\<rparr>,
      [(''/blobs/tarsum.v1+sha256:ab'', ''ab'')]) \<and>
   moveLayer localExternals (sessionOn inmemoryDriver) ''tarsum.v1+sha256:ab''
       \<lparr>backend = [(''/blobs/tarsum.v1+sha256:ab'', ''ab'')],
        journal = [CallStat ''/blobs/tarsum.v1+sha256:ab'',
                   CallStat ''/repo/lib/_uploads/abc123/data'',
                   CallMove ''/repo/lib/_uploads/abc123/data'' ''/blobs/tarsum.v1+sha256:ab'']\<rparr> =
     (None, \<lparr>backend = [(''/blobs/tarsum.v1+sha256:ab'', ''ab'')],
             journal = [CallStat ''/blobs/tarsum.v1+sha256:ab'',
                        CallStat ''/repo/lib/_uploads/abc123/data'',
                        CallMove ''/repo/lib/_uploads/abc123/data'' ''/blobs/tarsum.v1+sha256:ab'',
                        CallStat ''/blobs/tarsum.v1+sha256:ab'']\<rparr>)"
proof -
  let ?lw = "sessionOn inmemoryDriver"
  let ?d = "''tarsum.v1+sha256:ab''"
  let ?blob = "''/blobs/tarsum.v1+sha256:ab''"
  let ?scratch = "''/repo/lib/_uploads/abc123/data''"
  let ?w1 = "\<lparr>backend = [(?blob, ''ab'')],
             journal = [CallStat ?blob, CallStat ?scratch, CallMove ?scratch ?blob]\<rparr>"
  have blobPath: "pm (registry (repository (layerStore ?lw))) (blobDataPathSpec ?d) = Inr ?blob"
    by (simp add: sessionOn_def paths_def)
  have first: "moveLayer localExternals ?lw ?d (uploaded ''ab'') = (None, ?w1)"
    by (simp add: phase_defs local_defs)
  have there: "Stat (fileWriter.driver (fileWriter ?lw)) [(?blob, ''ab'')] ?blob =
      (Inr \<lparr>Path = ?blob, Size = 2, IsDir = False\<rparr>, [(?blob, ''ab'')])"
    by (simp add: local_defs)
  have drv: "fileWriter.driver (fileWriter ?lw) = inmemoryDriver"
    by (simp add: sessionOn_def)
  have contract:
    "(\<forall>b0 src b'. Move (fileWriter.driver (fileWriter ?lw)) b0 src ?blob = (None, b')
        \<longrightarrow> (\<exists>fi' b''. Stat (fileWriter.driver (fileWriter ?lw)) b' ?blob = (Inr fi', b''))) \<and>
     (\<forall>b0 content b'. PutContent (fileWriter.driver (fileWriter ?lw)) b0 ?blob content = (None, b')
        \<longrightarrow> (\<exists>fi' b''. Stat (fileWriter.driver (fileWriter ?lw)) b' ?blob = (Inr fi', b''))) \<and>
     (\<forall>b0 fi0 b'. Stat (fileWriter.driver (fileWriter ?lw)) b0 ?blob = (Inr fi0, b')
        \<longrightarrow> (\<exists>fi' b''. Stat (fileWriter.driver (fileWriter ?lw)) b' ?blob = (Inr fi', b'')))"
    unfolding drv
    using inmemoryStat_after_Move inmemoryStat_after_PutContent inmemoryStat_backend
    by (simp add: inmemoryDriver_def) (metis snd_conv)
  note twice = moveLayer_idempotent [OF blobPath, where ext = localExternals and w = "uploaded ''ab''"
      and ?w1.0 = ?w1, THEN conjunct2, rule_format]
  from contract first
  have "\<exists>b2. moveLayer localExternals ?lw ?d ?w1 =
      (None, \<lparr>backend = b2, journal = journal ?w1 @ [CallStat ?blob]\<rparr>)"
    by (intro twice) blast
  moreover have "moveLayer localExternals ?lw ?d ?w1 =
      (None, \<lparr>backend = [(?blob, ''ab'')], journal = journal ?w1 @ [CallStat ?blob]\<rparr>)"
    using moveLayer_idempotent [OF blobPath, where ext = localExternals and w = ?w1,
        THEN conjunct1, rule_format] there
    by simp
  ultimately show ?thesis
    using blobPath first there by simp
qed

section \<open>The move: a scratch file that is not there\<close>

text \<open>
  C5. With no blob at the destination and no file at the scratch path (both stats answer
  not-found): for the digest of the empty archive \<^verbatim>\<open>moveLayer\<close> puts a blob of length zero
  at the destination and returns what the put returns; for every other digest it puts
  nothing and goes on to the move, whose result it returns. A stat error other than
  not-found, from the second stat or from the first, is returned at once and no further
  call is made.
\<close>

theorem moveLayer_missing_scratch:
  assumes blobPath: "pm (registry (repository (layerStore lw))) (blobDataPathSpec dgst) = Inr blobPath"
  shows
    "(Stat (fileWriter.driver (fileWriter lw)) (backend w) blobPath = (Inl (PathNotFoundError p), b1) \<and>
      Stat (fileWriter.driver (fileWriter lw)) b1 (path (fileWriter lw)) = (Inl (PathNotFoundError q), b2) \<and>
      dgst = DigestTarSumV1EmptyTar ext \<and>
      PutContent (fileWriter.driver (fileWriter lw)) b2 blobPath [] = (m, b3)
      \<longrightarrow> moveLayer ext lw dgst w =
          (m, \<lparr>backend = b3,
               journal = journal w @
                 [CallStat blobPath, CallStat (path (fileWriter lw)), CallPutContent blobPath []]\<rparr>)) \<and>
     (Stat (fileWriter.driver (fileWriter lw)) (backend w) blobPath = (Inl (PathNotFoundError p), b1) \<and>
      Stat (fileWriter.driver (fileWriter lw)) b1 (path (fileWriter lw)) = (Inl (PathNotFoundError q), b2) \<and>
      dgst \<noteq> DigestTarSumV1EmptyTar ext \<and>
      Move (fileWriter.driver (fileWriter lw)) b2 (path (fileWriter lw)) blobPath = (m, b3)
      \<longrightarrow> moveLayer ext lw dgst w =
          (m, \<lparr>backend = b3,
               journal = journal w @
                 [CallStat blobPath, CallStat (path (fileWriter lw)),
                  CallMove (path (fileWriter lw)) blobPath]\<rparr>)) \<and>
     (Stat (fileWriter.driver (fileWriter lw)) (backend w) blobPath = (Inl (PathNotFoundError p), b1) \<and>
      Stat (fileWriter.driver (fileWriter lw)) b1 (path (fileWriter lw)) = (Inl err, b2) \<and>
      (\<forall>q'. err \<noteq> PathNotFoundError q')
      \<longrightarrow> moveLayer ext lw dgst w =
          (Some err, \<lparr>backend = b2,
               journal = journal w @ [CallStat blobPath, CallStat (path (fileWriter lw))]\<rparr>)) \<and>
     (Stat (fileWriter.driver (fileWriter lw)) (backend w) blobPath = (Inl err, b1) \<and>
      (\<forall>q'. err \<noteq> PathNotFoundError q')
      \<longrightarrow> moveLayer ext lw dgst w =
          (Some err, \<lparr>backend = b1, journal = journal w @ [CallStat blobPath]\<rparr>))"
proof (intro conjI impI)
  assume "Stat (fileWriter.driver (fileWriter lw)) (backend w) blobPath = (Inl (PathNotFoundError p), b1) \<and>
      Stat (fileWriter.driver (fileWriter lw)) b1 (path (fileWriter lw)) = (Inl (PathNotFoundError q), b2) \<and>
      dgst = DigestTarSumV1EmptyTar ext \<and>
      PutContent (fileWriter.driver (fileWriter lw)) b2 blobPath [] = (m, b3)"
  then show "moveLayer ext lw dgst w =
          (m, \<lparr>backend = b3,
               journal = journal w @
                 [CallStat blobPath, CallStat (path (fileWriter lw)), CallPutContent blobPath []]\<rparr>)"
    using moveLayer_absent [OF blobPath, of w p b1 "Inl (PathNotFoundError q)" b2 ext] by simp
next
  assume "Stat (fileWriter.driver (fileWriter lw)) (backend w) blobPath = (Inl (PathNotFoundError p), b1) \<and>
      Stat (fileWriter.driver (fileWriter lw)) b1 (path (fileWriter lw)) = (Inl (PathNotFoundError q), b2) \<and>
      dgst \<noteq> DigestTarSumV1EmptyTar ext \<and>
      Move (fileWriter.driver (fileWriter lw)) b2 (path (fileWriter lw)) blobPath = (m, b3)"
  then show "moveLayer ext lw dgst w =
          (m, \<lparr>backend = b3,
               journal = journal w @
                 [CallStat blobPath, CallStat (path (fileWriter lw)),
                  CallMove (path (fileWriter lw)) blobPath]\<rparr>)"
    using moveLayer_absent [OF blobPath, of w p b1 "Inl (PathNotFoundError q)" b2 ext] by simp
next
  assume "Stat (fileWriter.driver (fileWriter lw)) (backend w) blobPath = (Inl (PathNotFoundError p), b1) \<and>
      Stat (fileWriter.driver (fileWriter lw)) b1 (path (fileWriter lw)) = (Inl err, b2) \<and>
      (\<forall>q'. err \<noteq> PathNotFoundError q')"
  then show "moveLayer ext lw dgst w =
          (Some err, \<lparr>backend = b2,
               journal = journal w @ [CallStat blobPath, CallStat (path (fileWriter lw))]\<rparr>)"
    using moveLayer_absent [OF blobPath, of w p b1 "Inl err" b2 ext] by (cases err) simp_all
next
  assume "Stat (fileWriter.driver (fileWriter lw)) (backend w) blobPath = (Inl err, b1) \<and>
      (\<forall>q'. err \<noteq> PathNotFoundError q')"
  then show "moveLayer ext lw dgst w =
          (Some err, \<lparr>backend = b1, journal = journal w @ [CallStat blobPath]\<rparr>)"
    using moveLayer_stat_error [OF blobPath] by blast
qed

theorem moveLayer_missing_scratch_witness:
  "moveLayer localExternals (sessionOn inmemoryDriver) (DigestTarSumV1EmptyTar localExternals)
       \<lparr>backend = [], journal = []\<rparr> =
     (None, \<lparr>backend = [(''/blobs/tarsum.v1+sha256:'', [])],
             journal = [CallStat ''/blobs/tarsum.v1+sha256:'',
                        CallStat ''/repo/lib/_uploads/abc123/data'',
                        CallPutContent ''/blobs/tarsum.v1+sha256:'' []]\<rparr>) \<and>
   ''tarsum.v1+sha256:ab'' \<noteq> DigestTarSumV1EmptyTar localExternals \<and>
   moveLayer localExternals (sessionOn inmemoryDriver) ''tarsum.v1+sha256:ab''
       \<lparr>backend = [], journal = []\<rparr> =
     (Some (PathNotFoundError ''/repo/lib/_uploads/abc123/data''),
      \<lparr>backend = [],
       journal = [CallStat ''/blobs/tarsum.v1+sha256:ab'',
                  CallStat ''/repo/lib/_uploads/abc123/data'',
                  CallMove ''/repo/lib/_uploads/abc123/data'' ''/blobs/tarsum.v1+sha256:ab'']\<rparr>) \<and>
   moveLayer localExternals
       (sessionOn (inmemoryDriver\<lparr>Stat := \<lambda>b p.
          if p = ''/repo/lib/_uploads/abc123/data'' then (Inl (Errorf ''backend unavailable''), b)
          else inmemoryStat b p\<rparr>))
       ''tarsum.v1+sha256:ab'' (uploaded ''ab'') =
     (Some (Errorf ''backend unavailable''),
      \<lparr>backend = [(''/repo/lib/_uploads/abc123/data'', ''ab'')],
       journal = [CallStat ''/blobs/tarsum.v1+sha256:ab'',
                  CallStat ''/repo/lib/_uploads/abc123/data'']\<rparr>) \<and>
   moveLayer localExternals (sessionOn (faultyDriver ''Stat'')) ''tarsum.v1+sha256:ab'' (uploaded ''ab'') =
     (Some (Errorf ''backend unavailable''),
      \<lparr>backend = [(''/repo/lib/_uploads/abc123/data'', ''ab'')],
       journal = [CallStat ''/blobs/tarsum.v1+sha256:ab'']\<rparr>)"
proof -
  let ?scratch = "''/repo/lib/_uploads/abc123/data''"
  let ?blob = "''/blobs/tarsum.v1+sha256:ab''"
  let ?empty = "''/blobs/tarsum.v1+sha256:''"
  let ?nothing = "\<lparr>backend = [] :: inmemory, journal = []\<rparr>"
  let ?halting = "inmemoryDriver\<lparr>Stat := \<lambda>b p.
          if p = ?scratch then (Inl (Errorf ''backend unavailable''), b) else inmemoryStat b p\<rparr>"
  have emptyPath: "pm (registry (repository (layerStore (sessionOn inmemoryDriver))))
      (blobDataPathSpec (DigestTarSumV1EmptyTar localExternals)) = Inr ?empty"
    by (simp add: local_defs)
  have blobPath: "pm (registry (repository (layerStore (sessionOn d)))) (blobDataPathSpec ''tarsum.v1+sha256:ab'') =
      Inr ?blob" for d
    by (simp add: local_defs)
  have one: "moveLayer localExternals (sessionOn inmemoryDriver) (DigestTarSumV1EmptyTar localExternals) ?nothing =
      (None, \<lparr>backend = [(?empty, [])],
              journal = journal ?nothing @
                [CallStat ?empty, CallStat (path (fileWriter (sessionOn inmemoryDriver))),
                 CallPutContent ?empty []]\<rparr>)"
    by (rule moveLayer_missing_scratch [OF emptyPath, THEN conjunct1, rule_format,
          where p = ?empty and q = ?scratch and ?b1.0 = "[]" and ?b2.0 = "[]"])
      (simp add: local_defs)
  have other: "''tarsum.v1+sha256:ab'' \<noteq> DigestTarSumV1EmptyTar localExternals"
    by (simp add: local_defs)
  have two: "moveLayer localExternals (sessionOn inmemoryDriver) ''tarsum.v1+sha256:ab'' ?nothing =
      (Some (PathNotFoundError ?scratch),
       \<lparr>backend = [],
        journal = journal ?nothing @
          [CallStat ?blob, CallStat (path (fileWriter (sessionOn inmemoryDriver))),
           CallMove (path (fileWriter (sessionOn inmemoryDriver))) ?blob]\<rparr>)"
    by (rule moveLayer_missing_scratch [OF blobPath, THEN conjunct2, THEN conjunct1, rule_format,
          where p = ?blob and q = ?scratch and ?b1.0 = "[]" and ?b2.0 = "[]"])
      (simp add: local_defs)
  have three: "moveLayer localExternals (sessionOn ?halting) ''tarsum.v1+sha256:ab'' (uploaded ''ab'') =
      (Some (Errorf ''backend unavailable''),
       \<lparr>backend = [(?scratch, ''ab'')],
        journal = journal (uploaded ''ab'') @
          [CallStat ?blob, CallStat (path (fileWriter (sessionOn ?halting)))]\<rparr>)"
    by (rule moveLayer_missing_scratch [OF blobPath, THEN conjunct2, THEN conjunct2, THEN conjunct1,
          rule_format, where p = ?blob and ?b1.0 = "[(?scratch, ''ab'')]"])
      (simp add: local_defs)
  have four: "moveLayer localExternals (sessionOn (faultyDriver ''Stat'')) ''tarsum.v1+sha256:ab'' (uploaded ''ab'') =
      (Some (Errorf ''backend unavailable''),
       \<lparr>backend = [(?scratch, ''ab'')], journal = journal (uploaded ''ab'') @ [CallStat ?blob]\<rparr>)"
    by (rule moveLayer_missing_scratch [OF blobPath, THEN conjunct2, THEN conjunct2, THEN conjunct2,
          rule_format])
      (simp add: local_defs)
  show ?thesis
    using one other two three four by (simp add: sessionOn_def uploaded_def)
qed

section \<open>Finish and Cancel on a session that has ended\<close>

text \<open>Every phase only appends to the journal, and \<^verbatim>\<open>Cancel\<close> is one delete and one close.\<close>

lemma moveLayer_journal:
  "\<exists>j. journal (snd (moveLayer ext lw dgst w)) = journal w @ j"
  by (auto simp: moveLayer_def callStat_def callMove_def callPutContent_def
      split: sum.splits prod.splits error.splits)

lemma linkLayer_journal:
  "\<exists>j. journal (snd (linkLayer lw dgst w)) = journal w @ j"
  by (auto simp: linkLayer_def callPutContent_def split: sum.splits prod.splits)

lemma removeResources_journal:
  "\<exists>j. journal (snd (removeResources ext lw w)) = journal w @ j"
  by (auto simp: removeResources_def callDelete_def Let_def
      split: sum.splits prod.splits option.splits error.splits)

lemma callFetch_journal:
  "\<exists>j. journal (snd (callFetch ext ls dgst w)) = journal w @ j"
  by (auto simp: callFetch_def split: prod.splits)

lemma Finish_journal:
  "\<exists>j. journal (snd (Finish ext lw dgst w)) = journal (snd (validateLayer ext lw dgst w)) @ j"
proof -
  obtain r1 w1 where v: "validateLayer ext lw dgst w = (r1, w1)"
    by (cases "validateLayer ext lw dgst w")
  show ?thesis
  proof (cases r1)
    case (Inl err)
    with v show ?thesis by (simp add: Finish_def)
  next
    case (Inr canonical)
    obtain r2 w2 where m: "moveLayer ext lw canonical w1 = (r2, w2)"
      by (cases "moveLayer ext lw canonical w1")
    obtain r3 w3 where l: "linkLayer lw canonical w2 = (r3, w3)"
      by (cases "linkLayer lw canonical w2")
    obtain r4 w4 where c: "removeResources ext lw w3 = (r4, w4)"
      by (cases "removeResources ext lw w3")
    from moveLayer_journal [of ext lw canonical w1] m
    obtain j2 where j2: "journal w2 = journal w1 @ j2" by auto
    from linkLayer_journal [of lw canonical w2] l
    obtain j3 where j3: "journal w3 = journal w2 @ j3" by auto
    from removeResources_journal [of ext lw w3] c
    obtain j4 where j4: "journal w4 = journal w3 @ j4" by auto
    from callFetch_journal [of ext "layerStore lw" canonical w4]
    obtain j5 where j5: "journal (snd (callFetch ext (layerStore lw) canonical w4)) = journal w4 @ j5"
      by auto
    from v Inr m l c j2 j3 j4 j5 show ?thesis
      by (cases r2; cases r3; cases r4) (simp_all add: Finish_def)
  qed
qed

lemma Cancel_eq:
  assumes "pm (registry (repository (layerStore lw)))
             (uploadDataPathSpec (repository.Name (repository (layerStore lw))) (uuid lw)) = Inr dataPath"
    and "Delete (fileWriter.driver (fileWriter lw)) (backend w) (Dir ext dataPath) = (r, b)"
  shows "Cancel ext lw w =
     (if r = None \<or> (\<exists>p. r = Some (PathNotFoundError p))
      then (None, \<lparr>backend = b, journal = journal w @ [CallDelete (Dir ext dataPath), CallClose]\<rparr>)
      else (r, \<lparr>backend = b, journal = journal w @ [CallDelete (Dir ext dataPath)]\<rparr>))"
  using assms
  by (auto simp: Cancel_def removeResources_eq callClose_def split: option.splits error.splits)

text \<open>
  A session is cancelled. A second \<^verbatim>\<open>Cancel\<close> on it returns \<^verbatim>\<open>nil\<close> after deleting and
  closing once more, and a \<^verbatim>\<open>Finish\<close> on it with the digest of the empty archive runs all
  four phases, commits an empty blob with its link and returns a layer. Neither call is
  refused.
\<close>

theorem closed_session_counterexample:
  "Cancel localExternals (sessionOn inmemoryDriver) (uploaded ''ab'') =
     (None, \<lparr>backend = [], journal = [CallDelete ''/repo/lib/_uploads/abc123'', CallClose]\<rparr>) \<and>
   Cancel localExternals (sessionOn inmemoryDriver)
       \<lparr>backend = [], journal = [CallDelete ''/repo/lib/_uploads/abc123'', CallClose]\<rparr> =
     (None, \<lparr>backend = [],
             journal = [CallDelete ''/repo/lib/_uploads/abc123'', CallClose,
                        CallDelete ''/repo/lib/_uploads/abc123'', CallClose]\<rparr>) \<and>
   Finish localExternals (sessionOn inmemoryDriver) ''tarsum.v1+sha256:''
       \<lparr>backend = [], journal = [CallDelete ''/repo/lib/_uploads/abc123'', CallClose]\<rparr> =
     (Inr \<lparr>LayerDigest = ''tarsum.v1+sha256:'', LayerLength = 0\<rparr>,
      \<lparr>backend = [(''/repo/lib/_layers/tarsum.v1+sha256:'', ''tarsum.v1+sha256:''),
                  (''/blobs/tarsum.v1+sha256:'', [])],
       journal = [CallDelete ''/repo/lib/_uploads/abc123'', CallClose,
                  CallNewFileReader ''/repo/lib/_uploads/abc123/data'',
                  CallStat ''/blobs/tarsum.v1+sha256:'',
                  CallStat ''/repo/lib/_uploads/abc123/data'',
                  CallPutContent ''/blobs/tarsum.v1+sha256:'' [],
                  CallPutContent ''/repo/lib/_layers/tarsum.v1+sha256:'' ''tarsum.v1+sha256:'',
                  CallDelete ''/repo/lib/_uploads/abc123'',
                  CallFetch ''tarsum.v1+sha256:'']\<rparr>)"
  by (simp add: Finish_def Cancel_def phase_defs local_defs Let_def)

text \<open>
  C6, as the code has it. \<^verbatim>\<open>Finish\<close> and \<^verbatim>\<open>Cancel\<close> consult no closed or terminal flag.
  In the world left by a \<^verbatim>\<open>Cancel\<close> that returned \<^verbatim>\<open>nil\<close> or by a \<^verbatim>\<open>Finish\<close> that returned
  a layer, a further \<^verbatim>\<open>Cancel\<close> deletes the scratch directory again, where not-found
  counts as done, closes again and returns \<^verbatim>\<open>nil\<close>; a further \<^verbatim>\<open>Finish\<close> with a digest of
  the accepted version starts validation again by opening the reader over the scratch
  path. What a write does on such a session is the file writer's business.
\<close>

theorem terminal_calls_rerun:
  assumes terminal: "Cancel ext lw w0 = (None, w) \<or> (\<exists>layer. Finish ext lw dgst0 w0 = (Inr layer, w))"
  shows "(pm (registry (repository (layerStore lw)))
             (uploadDataPathSpec (repository.Name (repository (layerStore lw))) (uuid lw)) = Inr dataPath \<and>
          Delete (fileWriter.driver (fileWriter lw)) (backend w) (Dir ext dataPath) = (r, b) \<and>
          (r = None \<or> (\<exists>p. r = Some (PathNotFoundError p)))
          \<longrightarrow> Cancel ext lw w =
              (None, \<lparr>backend = b, journal = journal w @ [CallDelete (Dir ext dataPath), CallClose]\<rparr>)) \<and>
         (GetVersionFromTarsum ext (Digest_String dgst) = Inr Version1
          \<longrightarrow> (\<exists>j. journal (snd (Finish ext lw dgst w)) =
                  journal w @ CallNewFileReader (path (fileWriter lw)) # j))"
proof (intro conjI impI)
  assume "pm (registry (repository (layerStore lw)))
             (uploadDataPathSpec (repository.Name (repository (layerStore lw))) (uuid lw)) = Inr dataPath \<and>
          Delete (fileWriter.driver (fileWriter lw)) (backend w) (Dir ext dataPath) = (r, b) \<and>
          (r = None \<or> (\<exists>p. r = Some (PathNotFoundError p)))"
  then show "Cancel ext lw w =
      (None, \<lparr>backend = b, journal = journal w @ [CallDelete (Dir ext dataPath), CallClose]\<rparr>)"
    by (simp add: Cancel_eq)
next
  assume version: "GetVersionFromTarsum ext (Digest_String dgst) = Inr Version1"
  obtain r b where opened:
    "newFileReader ext (fileWriter.driver (fileWriter lw)) (path (fileWriter lw)) (backend w) = (r, b)"
    by (cases "newFileReader ext (fileWriter.driver (fileWriter lw)) (path (fileWriter lw)) (backend w)")
  have "\<exists>j. journal (snd (validateLayer ext lw dgst w)) =
      journal w @ CallNewFileReader (path (fileWriter lw)) # j"
  proof (cases r)
    case (Inl err)
    with version opened show ?thesis by (simp add: validateLayer_no_reader)
  next
    case (Inr fr)
    with version opened show ?thesis by (simp add: validateLayer_read)
  qed
  with Finish_journal [of ext lw dgst w]
  show "\<exists>j. journal (snd (Finish ext lw dgst w)) =
      journal w @ CallNewFileReader (path (fileWriter lw)) # j"
    by auto
qed

theorem terminal_calls_rerun_witness:
  "Cancel localExternals (sessionOn inmemoryDriver) (uploaded ''ab'') =
     (None, \<lparr>backend = [], journal = [CallDelete ''/repo/lib/_uploads/abc123'', CallClose]\<rparr>) \<and>
   Delete (fileWriter.driver (fileWriter (sessionOn inmemoryDriver))) [] ''/repo/lib/_uploads/abc123'' =
     (Some (PathNotFoundError ''/repo/lib/_uploads/abc123''), []) \<and>
   Cancel localExternals (sessionOn inmemoryDriver)
       \<lparr>backend = [], journal = [CallDelete ''/repo/lib/_uploads/abc123'', CallClose]\<rparr> =
     (None, \<lparr>backend = [],
             journal = [CallDelete ''/repo/lib/_uploads/abc123'', CallClose,
                        CallDelete ''/repo/lib/_uploads/abc123'', CallClose]\<rparr>) \<and>
   GetVersionFromTarsum localExternals (Digest_String ''tarsum.v1+sha256:ab'') = Inr Version1 \<and>
   (\<exists>j. journal (snd (Finish localExternals (sessionOn inmemoryDriver) ''tarsum.v1+sha256:ab''
            \<lparr>backend = [], journal = [CallDelete ''/repo/lib/_uploads/abc123'', CallClose]\<rparr>)) =
        [CallDelete ''/repo/lib/_uploads/abc123'', CallClose,
         CallNewFileReader ''/repo/lib/_uploads/abc123/data''] @ j)"
proof -
  let ?lw = "sessionOn inmemoryDriver"
  let ?dir = "''/repo/lib/_uploads/abc123''"
  let ?w = "\<lparr>backend = [] :: inmemory, journal = [CallDelete ?dir, CallClose]\<rparr>"
  have cancelled: "Cancel localExternals ?lw (uploaded ''ab'') = (None, ?w)"
    by (simp add: Cancel_def phase_defs local_defs)
  then have terminal: "Cancel localExternals ?lw (uploaded ''ab'') = (None, ?w) \<or>
      (\<exists>layer. Finish localExternals ?lw [] (uploaded ''ab'') = (Inr layer, ?w))"
    ..
  have dataPath: "pm (registry (repository (layerStore ?lw)))
      (uploadDataPathSpec (repository.Name (repository (layerStore ?lw))) (uuid ?lw)) =
      Inr ''/repo/lib/_uploads/abc123/data''"
    by (simp add: local_defs)
  have dir: "Dir localExternals ''/repo/lib/_uploads/abc123/data'' = ?dir"
    by (simp add: local_defs)
  have absent: "Delete (fileWriter.driver (fileWriter ?lw)) (backend ?w)
      (Dir localExternals ''/repo/lib/_uploads/abc123/data'') = (Some (PathNotFoundError ?dir), [])"
    by (simp add: local_defs)
  have version: "GetVersionFromTarsum localExternals (Digest_String ''tarsum.v1+sha256:ab'') = Inr Version1"
    by (simp add: localExternals_def tarsumVersion_def Digest_String_def)
  note again = terminal_calls_rerun [OF terminal]
  have "Cancel localExternals ?lw ?w =
      (None, \<lparr>backend = [],
              journal = journal ?w @ [CallDelete (Dir localExternals ''/repo/lib/_uploads/abc123/data''),
                                     CallClose]\<rparr>)"
    using dataPath absent
    by (intro again [THEN conjunct1, rule_format, where r = "Some (PathNotFoundError ?dir)"]) simp
  moreover have "\<exists>j. journal (snd (Finish localExternals ?lw ''tarsum.v1+sha256:ab'' ?w)) =
      journal ?w @ CallNewFileReader (path (fileWriter ?lw)) # j"
    using version by (rule again [THEN conjunct2, rule_format])
  ultimately show ?thesis
    using cancelled absent version by (simp add: dir sessionOn_def)
qed

section \<open>Cancel\<close>

text \<open>
  C7. \<^verbatim>\<open>Cancel\<close> makes one driver call, the delete of the directory of the upload's data
  path. When that delete succeeds or answers not-found, \<^verbatim>\<open>Cancel\<close> then closes the
  writer and returns \<^verbatim>\<open>nil\<close>. In every case the journal grows by that delete and the close
  at most, so no put, no move and no delete of another path is made, and the backend is
  the one the delete left.
\<close>

theorem Cancel_removes_scratch:
  assumes dataPath: "pm (registry (repository (layerStore lw)))
             (uploadDataPathSpec (repository.Name (repository (layerStore lw))) (uuid lw)) = Inr dataPath"
    and deleted: "Delete (fileWriter.driver (fileWriter lw)) (backend w) (Dir ext dataPath) = (r, b)"
  shows "(r = None \<or> (\<exists>p. r = Some (PathNotFoundError p))
          \<longrightarrow> Cancel ext lw w =
              (None, \<lparr>backend = b, journal = journal w @ [CallDelete (Dir ext dataPath), CallClose]\<rparr>)) \<and>
         (\<exists>j. journal (snd (Cancel ext lw w)) = journal w @ j \<and>
              set j \<subseteq> {CallDelete (Dir ext dataPath), CallClose}) \<and>
         backend (snd (Cancel ext lw w)) = b"
  by (simp add: Cancel_eq [OF dataPath deleted])

theorem Cancel_removes_scratch_witness:
  "Cancel localExternals (sessionOn inmemoryDriver)
     \<lparr>backend = [(''/repo/lib/_uploads/abc123/data'', ''ab''),
                 (''/repo/lib/_uploads/abc123/startedat'', ''0''),
                 (''/repo/lib/_uploads/abc1234/data'', ''zz''),
                 (''/repo/lib/_layers/tarsum.v1+sha256:cd'', ''tarsum.v1+sha256:cd''),
                 (''/blobs/tarsum.v1+sha256:cd'', ''cd'')],
      journal = []\<rparr> =
     (None,
      \<lparr>backend = [(''/repo/lib/_uploads/abc1234/data'', ''zz''),
                  (''/repo/lib/_layers/tarsum.v1+sha256:cd'', ''tarsum.v1+sha256:cd''),
                  (''/blobs/tarsum.v1+sha256:cd'', ''cd'')],
       journal = [CallDelete ''/repo/lib/_uploads/abc123'', CallClose]\<rparr>) \<and>
   Delete (fileWriter.driver (fileWriter (sessionOn inmemoryDriver)))
       [(''/blobs/tarsum.v1+sha256:cd'', ''cd'')] ''/repo/lib/_uploads/abc123'' =
     (Some (PathNotFoundError ''/repo/lib/_uploads/abc123''), [(''/blobs/tarsum.v1+sha256:cd'', ''cd'')]) \<and>
   Cancel localExternals (sessionOn inmemoryDriver)
     \<lparr>backend = [(''/blobs/tarsum.v1+sha256:cd'', ''cd'')], journal = []\<rparr> =
     (None,
      \<lparr>backend = [(''/blobs/tarsum.v1+sha256:cd'', ''cd'')],
       journal = [CallDelete ''/repo/lib/_uploads/abc123'', CallClose]\<rparr>)"
proof -
  let ?lw = "sessionOn inmemoryDriver"
  let ?dir = "''/repo/lib/_uploads/abc123''"
  let ?rest = "[(''/repo/lib/_uploads/abc1234/data'', ''zz''),
                (''/repo/lib/_layers/tarsum.v1+sha256:cd'', ''tarsum.v1+sha256:cd''),
                (''/blobs/tarsum.v1+sha256:cd'', ''cd'')]"
  let ?full = "(''/repo/lib/_uploads/abc123/data'', ''ab'') #
               (''/repo/lib/_uploads/abc123/startedat'', ''0'') # ?rest"
  have dataPath: "pm (registry (repository (layerStore ?lw)))
      (uploadDataPathSpec (repository.Name (repository (layerStore ?lw))) (uuid ?lw)) =
      Inr ''/repo/lib/_uploads/abc123/data''"
    by (simp add: local_defs)
  have dir: "Dir localExternals ''/repo/lib/_uploads/abc123/data'' = ?dir"
    by (simp add: local_defs)
  have gone: "Delete (fileWriter.driver (fileWriter ?lw)) (backend \<lparr>backend = ?full, journal = []\<rparr>)
      (Dir localExternals ''/repo/lib/_uploads/abc123/data'') = (None, ?rest)"
    by (simp add: local_defs)
  have absent: "Delete (fileWriter.driver (fileWriter ?lw))
      (backend \<lparr>backend = [(''/blobs/tarsum.v1+sha256:cd'', ''cd'')], journal = []\<rparr>)
      (Dir localExternals ''/repo/lib/_uploads/abc123/data'') =
      (Some (PathNotFoundError ?dir), [(''/blobs/tarsum.v1+sha256:cd'', ''cd'')])"
    by (simp add: local_defs)
  from Cancel_removes_scratch [OF dataPath gone] Cancel_removes_scratch [OF dataPath absent] absent
  show ?thesis
    by (simp add: dir)
qed

section \<open>Write, Close and newGrpcSink\<close>

text \<open>The loop of \<^verbatim>\<open>Write\<close> is a map over its arguments, and \<^verbatim>\<open>Write\<close> is one publish.\<close>

lemma appendEvents_eq:
  "appendEvents e events = events @ map grpcEvent e"
  by (induction e arbitrary: events) simp_all

lemma Write_eq:
  "Write api g e w =
     (case Publish api (client g) \<lparr>Events = map grpcEvent e\<rparr> (remote w) of
        (err, n) \<Rightarrow>
          (err, \<lparr>remote = n, sent = sent w @ [RpcPublish (client g) \<lparr>Events = map grpcEvent e\<rparr>]\<rparr>))"
  by (simp add: Write_def callPublish_def appendEvents_eq Let_def)

text \<open>
  C8. \<^verbatim>\<open>Write\<close> makes one call, a publish through the sink's client, and returns the
  error of that call. The message published holds as many events as \<^verbatim>\<open>Write\<close> was given,
  in the same order, and the event at each position carries the fields of the argument
  at that position: identifier, timestamp as Unix seconds, action, the target's
  repository, URL and descriptor (media type, length, digest as a string), the request's
  id, address, host, method and user agent, the actor's name, the source's address and
  instance id.
\<close>

theorem Write_publishes:
  assumes "Write api g e w = (err, w')"
  shows "\<exists>events.
     sent w' = sent w @ [RpcPublish (client g) \<lparr>Events = events\<rparr>] \<and>
     Publish api (client g) \<lparr>Events = events\<rparr> (remote w) = (err, remote w') \<and>
     length events = length e \<and>
     (\<forall>i<length e.
        grpcClient_Event.ID (events ! i) = Event.ID (e ! i) \<and>
        grpcClient_Event.Timestamp (events ! i) = Unix (Event.Timestamp (e ! i)) \<and>
        grpcClient_Event.Action (events ! i) = Event.Action (e ! i) \<and>
        TargetMessage.Repository (grpcClient_Event.Target (events ! i)) =
          EventTarget.Repository (Event.Target (e ! i)) \<and>
        TargetMessage.URL (grpcClient_Event.Target (events ! i)) = EventTarget.URL (Event.Target (e ! i)) \<and>
        DescriptorMessage.MediaType (TargetMessage.Descriptor (grpcClient_Event.Target (events ! i))) =
          Descriptor.MediaType (EventTarget.Descriptor (Event.Target (e ! i))) \<and>
        DescriptorMessage.Length (TargetMessage.Descriptor (grpcClient_Event.Target (events ! i))) =
          Descriptor.Length (EventTarget.Descriptor (Event.Target (e ! i))) \<and>
        DescriptorMessage.Digest (TargetMessage.Descriptor (grpcClient_Event.Target (events ! i))) =
          Digest_String (Descriptor.Digest (EventTarget.Descriptor (Event.Target (e ! i)))) \<and>
        RequestRecordMessage.ID (grpcClient_Event.Request (events ! i)) =
          RequestRecord.ID (Event.Request (e ! i)) \<and>
        RequestRecordMessage.Addr (grpcClient_Event.Request (events ! i)) =
          RequestRecord.Addr (Event.Request (e ! i)) \<and>
        RequestRecordMessage.Host (grpcClient_Event.Request (events ! i)) =
          RequestRecord.Host (Event.Request (e ! i)) \<and>
        RequestRecordMessage.Method (grpcClient_Event.Request (events ! i)) =
          RequestRecord.Method (Event.Request (e ! i)) \<and>
        RequestRecordMessage.UserAgent (grpcClient_Event.Request (events ! i)) =
          RequestRecord.UserAgent (Event.Request (e ! i)) \<and>
        ActorRecordMessage.Name (grpcClient_Event.Actor (events ! i)) =
          ActorRecord.Name (Event.Actor (e ! i)) \<and>
        SourceRecordMessage.Addr (grpcClient_Event.Source (events ! i)) =
          SourceRecord.Addr (Event.Source (e ! i)) \<and>
        SourceRecordMessage.InstanceID (grpcClient_Event.Source (events ! i)) =
          SourceRecord.InstanceID (Event.Source (e ! i)))"
proof (intro exI [of _ "map grpcEvent e"] conjI allI impI)
  obtain r n where published: "Publish api (client g) \<lparr>Events = map grpcEvent e\<rparr> (remote w) = (r, n)"
    by (cases "Publish api (client g) \<lparr>Events = map grpcEvent e\<rparr> (remote w)")
  with assms have result: "err = r"
    and world: "w' = \<lparr>remote = n, sent = sent w @ [RpcPublish (client g) \<lparr>Events = map grpcEvent e\<rparr>]\<rparr>"
    by (simp_all add: Write_eq)
  from world show "sent w' = sent w @ [RpcPublish (client g) \<lparr>Events = map grpcEvent e\<rparr>]"
    by simp
  from published result world
  show "Publish api (client g) \<lparr>Events = map grpcEvent e\<rparr> (remote w) = (err, remote w')"
    by simp
  show "length (map grpcEvent e) = length e"
    by simp
qed (simp_all add: grpcEvent_def)

theorem Write_publishes_witness:
  "Write localAPI linked
       [pushed ''e1'' 1425000000 ''tarsum.v1+sha256:ab'', pushed ''e2'' 1425000060 ''tarsum.v1+sha256:cd'']
       \<lparr>remote = [], sent = []\<rparr> =
     (None,
      \<lparr>remote = [\<lparr>Events = [grpcEvent (pushed ''e1'' 1425000000 ''tarsum.v1+sha256:ab''),
                               grpcEvent (pushed ''e2'' 1425000060 ''tarsum.v1+sha256:cd'')]\<rparr>],
       sent = [RpcPublish (NewEventReceiverClient ''receiver:9000'')
                 \<lparr>Events = [grpcEvent (pushed ''e1'' 1425000000 ''tarsum.v1+sha256:ab''),
                             grpcEvent (pushed ''e2'' 1425000060 ''tarsum.v1+sha256:cd'')]\<rparr>]\<rparr>) \<and>
   (\<exists>events.
      [RpcPublish (NewEventReceiverClient ''receiver:9000'')
         \<lparr>Events = [grpcEvent (pushed ''e1'' 1425000000 ''tarsum.v1+sha256:ab''),
                     grpcEvent (pushed ''e2'' 1425000060 ''tarsum.v1+sha256:cd'')]\<rparr>] =
      [RpcPublish (NewEventReceiverClient ''receiver:9000'') \<lparr>Events = events\<rparr>] \<and>
      length events = 2 \<and>
      grpcClient_Event.ID (events ! 0) = ''e1'' \<and>
      grpcClient_Event.ID (events ! 1) = ''e2'' \<and>
      grpcClient_Event.Timestamp (events ! 0) = 1425000000 \<and>
      grpcClient_Event.Timestamp (events ! 1) = 1425000060 \<and>
      grpcClient_Event.Action (events ! 1) = ''push'' \<and>
      TargetMessage.Repository (grpcClient_Event.Target (events ! 1)) = ''lib'' \<and>
      TargetMessage.URL (grpcClient_Event.Target (events ! 1)) =
        ''http://registry/v2/lib/blobs/tarsum.v1+sha256:cd'' \<and>
      DescriptorMessage.MediaType (TargetMessage.Descriptor (grpcClient_Event.Target (events ! 1))) =
        ''application/octet-stream'' \<and>
      DescriptorMessage.Length (TargetMessage.Descriptor (grpcClient_Event.Target (events ! 1))) = 2 \<and>
      DescriptorMessage.Digest (TargetMessage.Descriptor (grpcClient_Event.Target (events ! 0))) =
        ''tarsum.v1+sha256:ab'' \<and>
      DescriptorMessage.Digest (TargetMessage.Descriptor (grpcClient_Event.Target (events ! 1))) =
        ''tarsum.v1+sha256:cd'' \<and>
      RequestRecordMessage.ID (grpcClient_Event.Request (events ! 1)) = ''req-e2'' \<and>
      RequestRecordMessage.Addr (grpcClient_Event.Request (events ! 1)) = ''10.0.0.7:4711'' \<and>
      RequestRecordMessage.Host (grpcClient_Event.Request (events ! 1)) = ''registry'' \<and>
      RequestRecordMessage.Method (grpcClient_Event.Request (events ! 1)) = ''PUT'' \<and>
      RequestRecordMessage.UserAgent (grpcClient_Event.Request (events ! 1)) = ''docker/1.5'' \<and>
      ActorRecordMessage.Name (grpcClient_Event.Actor (events ! 1)) = ''alice'' \<and>
      SourceRecordMessage.Addr (grpcClient_Event.Source (events ! 1)) = ''registry:5000'' \<and>
      SourceRecordMessage.InstanceID (grpcClient_Event.Source (events ! 1)) = ''i-1'')"
proof -
  let ?e1 = "pushed ''e1'' 1425000000 ''tarsum.v1+sha256:ab''"
  let ?e2 = "pushed ''e2'' 1425000060 ''tarsum.v1+sha256:cd''"
  let ?c = "NewEventReceiverClient ''receiver:9000''"
  let ?w = "\<lparr>remote = [] :: Events list, sent = [] :: string rpc list\<rparr>"
  let ?w' = "\<lparr>remote = [\<lparr>Events = [grpcEvent ?e1, grpcEvent ?e2]\<rparr>],
              sent = [RpcPublish ?c \<lparr>Events = [grpcEvent ?e1, grpcEvent ?e2]\<rparr>]\<rparr>"
  have written: "Write localAPI linked [?e1, ?e2] ?w = (None, ?w')"
    by (simp add: Write_def callPublish_def localAPI_def linked_def Let_def)
  from Write_publishes [OF written] obtain events where
    sent: "sent ?w' = sent ?w @ [RpcPublish (client linked) \<lparr>Events = events\<rparr>]"
    and count: "length events = length [?e1, ?e2]"
    and fields: "\<forall>i<length [?e1, ?e2].
        grpcClient_Event.ID (events ! i) = Event.ID ([?e1, ?e2] ! i) \<and>
        grpcClient_Event.Timestamp (events ! i) = Unix (Event.Timestamp ([?e1, ?e2] ! i)) \<and>
        grpcClient_Event.Action (events ! i) = Event.Action ([?e1, ?e2] ! i) \<and>
        TargetMessage.Repository (grpcClient_Event.Target (events ! i)) =
          EventTarget.Repository (Event.Target ([?e1, ?e2] ! i)) \<and>
        TargetMessage.URL (grpcClient_Event.Target (events ! i)) =
          EventTarget.URL (Event.Target ([?e1, ?e2] ! i)) \<and>
        DescriptorMessage.MediaType (TargetMessage.Descriptor (grpcClient_Event.Target (events ! i))) =
          Descriptor.MediaType (EventTarget.Descriptor (Event.Target ([?e1, ?e2] ! i))) \<and>
        DescriptorMessage.Length (TargetMessage.Descriptor (grpcClient_Event.Target (events ! i))) =
          Descriptor.Length (EventTarget.Descriptor (Event.Target ([?e1, ?e2] ! i))) \<and>
        DescriptorMessage.Digest (TargetMessage.Descriptor (grpcClient_Event.Target (events ! i))) =
          Digest_String (Descriptor.Digest (EventTarget.Descriptor (Event.Target ([?e1, ?e2] ! i)))) \<and>
        RequestRecordMessage.ID (grpcClient_Event.Request (events ! i)) =
          RequestRecord.ID (Event.Request ([?e1, ?e2] ! i)) \<and>
        RequestRecordMessage.Addr (grpcClient_Event.Request (events ! i)) =
          RequestRecord.Addr (Event.Request ([?e1, ?e2] ! i)) \<and>
        RequestRecordMessage.Host (grpcClient_Event.Request (events ! i)) =
          RequestRecord.Host (Event.Request ([?e1, ?e2] ! i)) \<and>
        RequestRecordMessage.Method (grpcClient_Event.Request (events ! i)) =
          RequestRecord.Method (Event.Request ([?e1, ?e2] ! i)) \<and>
        RequestRecordMessage.UserAgent (grpcClient_Event.Request (events ! i)) =
          RequestRecord.UserAgent (Event.Request ([?e1, ?e2] ! i)) \<and>
        ActorRecordMessage.Name (grpcClient_Event.Actor (events ! i)) =
          ActorRecord.Name (Event.Actor ([?e1, ?e2] ! i)) \<and>
        SourceRecordMessage.Addr (grpcClient_Event.Source (events ! i)) =
          SourceRecord.Addr (Event.Source ([?e1, ?e2] ! i)) \<and>
        SourceRecordMessage.InstanceID (grpcClient_Event.Source (events ! i)) =
          SourceRecord.InstanceID (Event.Source ([?e1, ?e2] ! i))"
    by blast
  from fields have first: "grpcClient_Event.ID (events ! 0) = ''e1''"
    "grpcClient_Event.Timestamp (events ! 0) = 1425000000"
    "DescriptorMessage.Digest (TargetMessage.Descriptor (grpcClient_Event.Target (events ! 0))) =
       ''tarsum.v1+sha256:ab''"
    by (simp_all add: pushed_def Unix_def Digest_String_def)
  from fields [rule_format, of 1] have second:
    "grpcClient_Event.ID (events ! 1) = ''e2''"
    "grpcClient_Event.Timestamp (events ! 1) = 1425000060"
    "grpcClient_Event.Action (events ! 1) = ''push''"
    "TargetMessage.Repository (grpcClient_Event.Target (events ! 1)) = ''lib''"
    "TargetMessage.URL (grpcClient_Event.Target (events ! 1)) =
       ''http://registry/v2/lib/blobs/tarsum.v1+sha256:cd''"
    "DescriptorMessage.MediaType (TargetMessage.Descriptor (grpcClient_Event.Target (events ! 1))) =
       ''application/octet-stream''"
    "DescriptorMessage.Length (TargetMessage.Descriptor (grpcClient_Event.Target (events ! 1))) = 2"
    "DescriptorMessage.Digest (TargetMessage.Descriptor (grpcClient_Event.Target (events ! 1))) =
       ''tarsum.v1+sha256:cd''"
    "RequestRecordMessage.ID (grpcClient_Event.Request (events ! 1)) = ''req-e2''"
    "RequestRecordMessage.Addr (grpcClient_Event.Request (events ! 1)) = ''10.0.0.7:4711''"
    "RequestRecordMessage.Host (grpcClient_Event.Request (events ! 1)) = ''registry''"
    "RequestRecordMessage.Method (grpcClient_Event.Request (events ! 1)) = ''PUT''"
    "RequestRecordMessage.UserAgent (grpcClient_Event.Request (events ! 1)) = ''docker/1.5''"
    "ActorRecordMessage.Name (grpcClient_Event.Actor (events ! 1)) = ''alice''"
    "SourceRecordMessage.Addr (grpcClient_Event.Source (events ! 1)) = ''registry:5000''"
    "SourceRecordMessage.InstanceID (grpcClient_Event.Source (events ! 1)) = ''i-1''"
    by (simp_all add: pushed_def Unix_def Digest_String_def)
  from sent have same: "[RpcPublish ?c \<lparr>Events = [grpcEvent ?e1, grpcEvent ?e2]\<rparr>] =
      [RpcPublish ?c \<lparr>Events = events\<rparr>]"
    by (simp add: linked_def)
  from count have two: "length events = 2"
    by simp
  show ?thesis
    using written same two first second by blast
qed

text \<open>
  C9. Neither \<^verbatim>\<open>Write\<close> nor \<^verbatim>\<open>Close\<close> reads the fields \<open>closed\<close> and \<open>mu\<close>: with any values
  in them both do what they do without. After a \<^verbatim>\<open>Close\<close>, whatever it returned, \<^verbatim>\<open>Write\<close>
  still publishes through the client and returns what the publish returns; it has no
  error of its own for a closed sink.
\<close>

theorem Write_ignores_closed:
  "Write api (g\<lparr>closed := c, mu := m\<rparr>) e w = Write api g e w \<and>
   Close api (g\<lparr>closed := c, mu := m\<rparr>) w = Close api g w \<and>
   (Close api g w = (r, w1) \<longrightarrow>
      Write api g e w1 =
        (case Publish api (client g) \<lparr>Events = map grpcEvent e\<rparr> (remote w1) of
           (err, n) \<Rightarrow>
             (err, \<lparr>remote = n,
                    sent = sent w @ [RpcConnClose (conn g),
                                     RpcPublish (client g) \<lparr>Events = map grpcEvent e\<rparr>]\<rparr>)))"
  by (auto simp: Write_eq Close_def callConnClose_def split: prod.splits)

theorem Write_ignores_closed_witness:
  "Close localAPI linked \<lparr>remote = [], sent = []\<rparr> =
     (None, \<lparr>remote = [], sent = [RpcConnClose ''receiver:9000'']\<rparr>) \<and>
   Write localAPI (linked\<lparr>closed := True, mu := True\<rparr>) [pushed ''e1'' 1425000000 ''tarsum.v1+sha256:ab'']
       \<lparr>remote = [], sent = [RpcConnClose ''receiver:9000'']\<rparr> =
     (None,
      \<lparr>remote = [\<lparr>Events = [grpcEvent (pushed ''e1'' 1425000000 ''tarsum.v1+sha256:ab'')]\<rparr>],
       sent = [RpcConnClose ''receiver:9000'',
               RpcPublish (NewEventReceiverClient ''receiver:9000'')
                 \<lparr>Events = [grpcEvent (pushed ''e1'' 1425000000 ''tarsum.v1+sha256:ab'')]\<rparr>]\<rparr>)"
proof -
  let ?e1 = "pushed ''e1'' 1425000000 ''tarsum.v1+sha256:ab''"
  let ?w = "\<lparr>remote = [] :: Events list, sent = [] :: string rpc list\<rparr>"
  let ?w1 = "\<lparr>remote = [] :: Events list, sent = [RpcConnClose ''receiver:9000'']\<rparr>"
  have shut: "Close localAPI linked ?w = (None, ?w1)"
    by (simp add: Close_def callConnClose_def localAPI_def linked_def)
  note unread = Write_ignores_closed [where api = localAPI and g = linked and c = True and m = True
      and e = "[?e1]" and w = ?w1, THEN conjunct1]
  note still = Write_ignores_closed [where api = localAPI and g = linked and e = "[?e1]" and w = ?w
      and r = None and ?w1.0 = ?w1, THEN conjunct2, THEN conjunct2, rule_format, OF shut]
  have "Write localAPI (linked\<lparr>closed := True, mu := True\<rparr>) [?e1] ?w1 =
      (case Publish localAPI (client linked) \<lparr>Events = map grpcEvent [?e1]\<rparr> (remote ?w1) of
         (err, n) \<Rightarrow>
           (err, \<lparr>remote = n,
                  sent = sent ?w @ [RpcConnClose (conn linked),
                                    RpcPublish (client linked) \<lparr>Events = map grpcEvent [?e1]\<rparr>]\<rparr>))"
    by (simp only: unread still)
  then show ?thesis
    using shut by (simp add: localAPI_def linked_def)
qed

text \<open>
  C10. When the dial returns an error, \<^verbatim>\<open>newGrpcSink\<close> returns \<^verbatim>\<open>nil\<close>: no sink, and
  nothing of the error, whichever it was.
\<close>

theorem newGrpcSink_dial_error:
  assumes "Dial api u (remote w) = (Inl err, n)"
  shows "newGrpcSink api u w = (None, \<lparr>remote = n, sent = sent w @ [RpcDial u]\<rparr>)"
  using assms by (simp add: newGrpcSink_def callDial_def)

theorem newGrpcSink_dial_error_witness:
  "Dial localAPI [] (remote \<lparr>remote = [], sent = []\<rparr>) = (Inl (Errorf ''grpc: no target''), []) \<and>
   newGrpcSink localAPI [] \<lparr>remote = [], sent = []\<rparr> = (None, \<lparr>remote = [], sent = [RpcDial []]\<rparr>)"
proof -
  have refused: "Dial localAPI [] (remote \<lparr>remote = [], sent = [] :: string rpc list\<rparr>) =
      (Inl (Errorf ''grpc: no target''), [])"
    by (simp add: localAPI_def)
  from refused newGrpcSink_dial_error [OF refused] show ?thesis
    by simp
qed

end
